theory Spec2Isabelle
  imports Main
begin

section \<open>Data model\<close>

text \<open>
  The alert types come from the Alertmanager packages the gateway imports. A label or
  annotation set is a Go \<^verbatim>\<open>map[string]string\<close>; indexing it with an absent key (or
  indexing a nil map) yields the zero value of the element type, the empty string.
\<close>

type_synonym KV = "string \<rightharpoonup> string"

definition kv_index :: "KV \<Rightarrow> string \<Rightarrow> string" where
  "kv_index m k = (case m k of None \<Rightarrow> [] | Some v \<Rightarrow> v)"

text \<open>An instant of \<^verbatim>\<open>time.Time\<close>, kept abstract as a number.\<close>

type_synonym time = int

record Alert =
  Status :: string
  Labels :: KV
  Annotations :: KV
  StartsAt :: time
  EndsAt :: time
  GeneratorURL :: string

text \<open>Of the webhook message the gateway reads the alert sequence only.\<close>

record WebhookMessage =
  Alerts :: "Alert list"
  Version :: string
  GroupKey :: string

text \<open>The fields of \<^verbatim>\<open>raven.Packet\<close> that the worker fills in (source lines 172-181).\<close>

record Packet =
  Timestamp :: time
  Message :: string
  Extra :: "string \<rightharpoonup> time"
  Logger :: string
  Fingerprint :: "string list"
  ServerName :: string

text \<open>
  Go error values. \<open>Error\<close> carries the message of an error produced by a collaborator
  that is taken as a parameter (unmarshalling, closing the listener) or of a context
  that has expired; the next two are the execution errors of the template engine
  modelled below; the last three are the errors of reading a JSON value: a syntax
  error at a byte, a body that ends inside a value, and a body with no value.
\<close>

datatype error =
    Error string
  | CantEvaluateField string string
  | MapHasNoEntry string
  | SyntaxError char string
  | UnexpectedEOF
  | EOF

section \<open>Template engine\<close>

text \<open>
  Modelled from the spec: the template engine is Go's \<^verbatim>\<open>html/template\<close> package, which
  the source imports (line 9) and which is not part of the repository. The model covers
  parsed templates made of literal text and of field chains into the two key-value
  maps of an alert, executed in HTML text context (the literal text opens no tag):

  \<^item> \<open>TextNode s\<close> is literal text, copied to the output;
  \<^item> \<open>FieldNode LabelsField k []\<close> is the action \<^verbatim>\<open>{{ .Labels.k }}\<close>, and
    \<open>FieldNode LabelsField k (f # fs)\<close> is \<^verbatim>\<open>{{ .Labels.k.f... }}\<close>, a field of a
    string, which the engine cannot evaluate; likewise for \<open>AnnotationsField\<close>.

  A key absent from the map evaluates to the zero value under the option
  \<^verbatim>\<open>missingkey=zero\<close> and stops execution with an error under \<^verbatim>\<open>missingkey=error\<close>.
  The value of an action is written through the package's HTML escaper.
\<close>

datatype missingkey = MissingKeyZero | MissingKeyError

datatype kvfield = LabelsField | AnnotationsField

datatype node = TextNode string | FieldNode kvfield string "string list"

record template =
  missingKey :: missingkey
  tree :: "node list"

text \<open>
  The replacement table of the HTML escaper: NUL becomes U+FFFD (three bytes in UTF-8),
  and the characters \<^verbatim>\<open>" & ' + < >\<close> become character references.
\<close>

definition htmlReplacement :: "char \<Rightarrow> string" where
  "htmlReplacement c =
     (if c = CHR 0x00 then [CHR 0xEF, CHR 0xBF, CHR 0xBD]
      else if c = CHR 0x22 then ''&#34;''
      else if c = CHR ''&'' then ''&amp;''
      else if c = CHR 0x27 then ''&#39;''
      else if c = CHR ''+'' then ''&#43;''
      else if c = CHR ''<'' then ''&lt;''
      else if c = CHR ''>'' then ''&gt;''
      else [c])"

definition htmlEscaper :: "string \<Rightarrow> string" where
  "htmlEscaper s = concat (map htmlReplacement s)"

definition alert_kv :: "kvfield \<Rightarrow> Alert \<Rightarrow> KV" where
  "alert_kv f a = (case f of LabelsField \<Rightarrow> Labels a | AnnotationsField \<Rightarrow> Annotations a)"

definition evalKey :: "missingkey \<Rightarrow> KV \<Rightarrow> string \<Rightarrow> error + string" where
  "evalKey opt m k =
     (case m k of
        Some v \<Rightarrow> Inr v
      | None \<Rightarrow> (case opt of
                  MissingKeyZero \<Rightarrow> Inr []
                | MissingKeyError \<Rightarrow> Inl (MapHasNoEntry k)))"

definition evalFieldNode :: "missingkey \<Rightarrow> Alert \<Rightarrow> kvfield \<Rightarrow> string \<Rightarrow> string list \<Rightarrow> error + string" where
  "evalFieldNode opt a f k sub =
     (case evalKey opt (alert_kv f a) k of
        Inl e \<Rightarrow> Inl e
      | Inr v \<Rightarrow> (case sub of
                   [] \<Rightarrow> Inr v
                 | g # _ \<Rightarrow> Inl (CantEvaluateField g ''string'')))"

text \<open>
  Execution walks the nodes in order and appends to the buffer; at the first error it
  stops and returns the error, leaving what was already written in the buffer.
\<close>

fun walk :: "missingkey \<Rightarrow> Alert \<Rightarrow> node list \<Rightarrow> string \<Rightarrow> string \<times> error option" where
  "walk opt a [] buf = (buf, None)"
| "walk opt a (TextNode s # ns) buf = walk opt a ns (buf @ s)"
| "walk opt a (FieldNode f k sub # ns) buf =
     (case evalFieldNode opt a f k sub of
        Inl e \<Rightarrow> (buf, Some e)
      | Inr v \<Rightarrow> walk opt a ns (buf @ htmlEscaper v))"

definition Execute :: "template \<Rightarrow> string \<Rightarrow> Alert \<Rightarrow> string \<times> error option" where
  "Execute t buf alert = walk (missingKey t) alert (tree t) buf"

text \<open>
  Source lines 96-98: the template is created with the option \<^verbatim>\<open>missingkey=zero\<close> and
  then parsed. Parsing is the package's; the model takes the parsed nodes.
\<close>

definition new_template :: "node list \<Rightarrow> template" where
  "new_template ns = \<lparr>missingKey = MissingKeyZero, tree = ns\<rparr>"

text \<open>
  Source line 30, parsed:
  \<^verbatim>\<open>"{{ .Labels.alertname }} - {{ .Labels.namespace }}/{{ .Labels.pod_name}}\n{{ .Annotations.message }}"\<close>
  (the \<^verbatim>\<open>\n\<close> of the Go string literal is one newline character).
\<close>

definition defaultTemplate :: "node list" where
  "defaultTemplate =
     [FieldNode LabelsField ''alertname'' [],
      TextNode '' - '',
      FieldNode LabelsField ''namespace'' [],
      TextNode ''/'',
      FieldNode LabelsField ''pod_name'' [],
      TextNode [CHR 0x0A],
      FieldNode AnnotationsField ''message'' []]"

section \<open>Dispatch worker\<close>

text \<open>
  What the worker does to the outside is recorded as a trace, in the order in which
  it happens: a line on standard error, a call of \<^verbatim>\<open>raven.Capture\<close> with its packet
  and tags, the receive \<^verbatim>\<open><-ch\<close> that waits for the acknowledgment of that capture,
  and the log line with the event identifier and the alert name.
\<close>

datatype event =
    Stderr string error
  | Capture Packet KV
  | AwaitAck
  | LogPrintf string string

text \<open>
  The collaborators outside the source file are parameters: the template's
  \<^verbatim>\<open>Execute\<close> (what it wrote to the buffer, and its error), the clock, the capture
  client (the event identifier it returns) and the unmarshalling of a JSON value
  into a message. The clock and the client are indexed by the number of dispatches
  made so far.
\<close>

record 't env =
  tmpl_Execute :: "'t \<Rightarrow> string \<Rightarrow> Alert \<Rightarrow> string \<times> error option"
  time_Now :: "nat \<Rightarrow> time"
  raven_Capture :: "nat \<Rightarrow> Packet \<Rightarrow> KV \<Rightarrow> string"
  json_Unmarshal :: "string \<Rightarrow> error + WebhookMessage"

record world =
  trace :: "event list"
  dispatched :: nat

definition emit :: "event \<Rightarrow> world \<Rightarrow> world" where
  "emit e w = w\<lparr>trace := trace w @ [e]\<rparr>"

text \<open>Source lines 159-171: render, or fall back to the alert name or to a literal.\<close>

definition render_message :: "'t env \<Rightarrow> 't \<Rightarrow> Alert \<Rightarrow> world \<Rightarrow> string \<times> world" where
  "render_message E t alert w =
     (case tmpl_Execute E t [] alert of
        (buf, Some err) \<Rightarrow>
          (if kv_index (Labels alert) ''alertname'' = []
           then (''fallback'', emit (Stderr ''Invalid template: '' err) w)
           else (kv_index (Labels alert) ''alertname'', emit (Stderr ''Invalid template: '' err) w))
      | (buf, None) \<Rightarrow> (buf, w))"

text \<open>Source lines 172-181.\<close>

definition build_packet :: "time \<Rightarrow> string \<Rightarrow> Alert \<Rightarrow> Packet" where
  "build_packet ts msg alert =
     \<lparr>Timestamp = ts,
      Message = msg,
      Extra = [''firing_since'' \<mapsto> StartsAt alert, ''firing_until'' \<mapsto> EndsAt alert],
      Logger = ''alertmanager'',
      Fingerprint = [kv_index (Labels alert) ''alertname'',
                     kv_index (Labels alert) ''namespace'',
                     kv_index (Labels alert) ''pod_name''],
      ServerName = kv_index (Labels alert) ''namespace'' @ ''/'' @ kv_index (Labels alert) ''pod_name''\<rparr>"

text \<open>Source lines 159-186: the body of the inner loop, for one alert.\<close>

definition worker_alert :: "'t env \<Rightarrow> 't \<Rightarrow> Alert \<Rightarrow> world \<Rightarrow> world" where
  "worker_alert E t alert w =
     (let (msg, w1) = render_message E t alert w;
          packet = build_packet (time_Now E (dispatched w1)) msg alert;
          eventID = raven_Capture E (dispatched w1) packet (Labels alert);
          w2 = emit (Capture packet (Labels alert)) w1;
          w3 = emit AwaitAck w2;
          w4 = emit (LogPrintf eventID (kv_index (Labels alert) ''alertname'')) w3
      in w4\<lparr>dispatched := Suc (dispatched w4)\<rparr>)"

text \<open>Source lines 158-187: the inner loop over the alerts of one message.\<close>

fun worker_alerts :: "'t env \<Rightarrow> 't \<Rightarrow> Alert list \<Rightarrow> world \<Rightarrow> world" where
  "worker_alerts E t [] w = w"
| "worker_alerts E t (alert # rest) w = worker_alerts E t rest (worker_alert E t alert w)"

definition worker_message :: "'t env \<Rightarrow> 't \<Rightarrow> WebhookMessage \<Rightarrow> world \<Rightarrow> world" where
  "worker_message E t wh w = worker_alerts E t (Alerts wh) w"

section \<open>Intake channel\<close>

text \<open>
  The channel of source line 103 is a Go channel. Its state is its capacity, the
  buffered values, the values held by goroutines parked in a send, the number of
  goroutines parked in a receive, and whether it is closed. The operations follow
  the Go runtime: a send hands its value to a parked receiver if there is one, else
  buffers it if there is room, else parks; a receive takes the oldest buffered value
  (a parked sender then moves its value into the buffer), else takes the value of a
  parked sender, else reports closure on a closed channel, else parks; closing wakes
  every parked receiver with the closure and every parked sender with a panic.
\<close>

record 'a chan =
  ch_cap :: nat
  ch_buf :: "'a list"
  ch_sendq :: "'a list"
  ch_recvq :: nat
  ch_closed :: bool

definition make_chan :: "nat \<Rightarrow> 'a chan" where
  "make_chan n = \<lparr>ch_cap = n, ch_buf = [], ch_sendq = [], ch_recvq = 0, ch_closed = False\<rparr>"

definition chan_len :: "'a chan \<Rightarrow> nat" where
  "chan_len c = length (ch_buf c)"

datatype send_result = SendHandoff | SendBuffered | SendParked | SendPanic

definition chan_send :: "'a \<Rightarrow> 'a chan \<Rightarrow> send_result \<times> 'a chan" where
  "chan_send v c =
     (if ch_closed c then (SendPanic, c)
      else if 0 < ch_recvq c then (SendHandoff, c\<lparr>ch_recvq := ch_recvq c - 1\<rparr>)
      else if length (ch_buf c) < ch_cap c then (SendBuffered, c\<lparr>ch_buf := ch_buf c @ [v]\<rparr>)
      else (SendParked, c\<lparr>ch_sendq := ch_sendq c @ [v]\<rparr>))"

datatype 'a recv_result = Received 'a | RecvClosed | RecvParked

definition chan_recv :: "'a chan \<Rightarrow> 'a recv_result \<times> 'a chan" where
  "chan_recv c =
     (case ch_buf c of
        x # xs \<Rightarrow>
          (case ch_sendq c of
             [] \<Rightarrow> (Received x, c\<lparr>ch_buf := xs\<rparr>)
           | v # vs \<Rightarrow> (Received x, c\<lparr>ch_buf := xs @ [v], ch_sendq := vs\<rparr>))
      | [] \<Rightarrow>
          (case ch_sendq c of
             v # vs \<Rightarrow> (Received v, c\<lparr>ch_sendq := vs\<rparr>)
           | [] \<Rightarrow>
               if ch_closed c then (RecvClosed, c)
               else (RecvParked, c\<lparr>ch_recvq := ch_recvq c + 1\<rparr>)))"


section \<open>Process state\<close>

text \<open>
  The worker goroutine is at the head of its \<^verbatim>\<open>range\<close> loop (about to receive, or busy
  before it gets there), parked in the receive, holding a message it has received and
  not yet processed, or it has left the loop.
\<close>

datatype wstatus = AtRange | Parked | Got WebhookMessage | Exited

record sys =
  hookChan :: "WebhookMessage chan"
  worker_at :: wstatus
  wld :: world

text \<open>Source lines 103 and 134: the channel is made without a capacity, the worker started.\<close>

definition sys_init :: sys where
  "sys_init = \<lparr>hookChan = make_chan 0, worker_at = AtRange, wld = \<lparr>trace = [], dispatched = 0\<rparr>\<rparr>"

text \<open>
  Source lines 156-189, one turn of the worker goroutine: the receive of the
  \<^verbatim>\<open>range\<close> clause, or the loop body for the message received.
\<close>

definition worker :: "'t env \<Rightarrow> 't \<Rightarrow> sys \<Rightarrow> sys" where
  "worker E t s =
     (case worker_at s of
        AtRange \<Rightarrow>
          (case chan_recv (hookChan s) of
             (Received wh, c) \<Rightarrow> s\<lparr>hookChan := c, worker_at := Got wh\<rparr>
           | (RecvClosed, c) \<Rightarrow> s\<lparr>hookChan := c, worker_at := Exited\<rparr>
           | (RecvParked, c) \<Rightarrow> s\<lparr>hookChan := c, worker_at := Parked\<rparr>)
      | Got wh \<Rightarrow> s\<lparr>wld := worker_message E t wh (wld s), worker_at := AtRange\<rparr>
      | Parked \<Rightarrow> s
      | Exited \<Rightarrow> s)"

section \<open>JSON decoding\<close>

text \<open>
  The handler decodes with \<^verbatim>\<open>json.NewDecoder(r.Body).Decode(&wh)\<close> (source lines 109-112).
  The decoder of Go's \<^verbatim>\<open>encoding/json\<close> package, which is not part of the repository,
  works in two stages: it reads the bytes of the first JSON value of the body with
  the package's scanner, a machine that is stepped once per byte and keeps a stack of
  the objects and arrays it is inside, and then unmarshals that value into the
  message. It does not look at what follows the first value.

  The scanner below follows the package's scanner state by state. The head of
  \<open>sc_parseState\<close> is the innermost open object or array. The limit on the depth of
  nesting that later versions of the package have is left out.
\<close>

datatype scan_op =
    ScanContinue | ScanBeginLiteral | ScanBeginObject | ScanObjectKey | ScanObjectValue
  | ScanEndObject | ScanBeginArray | ScanArrayValue | ScanEndArray | ScanSkipSpace
  | ScanEnd | ScanError

datatype parse_state = ParseObjectKey | ParseObjectValue | ParseArrayValue

datatype scan_state =
    StateBeginValue | StateBeginValueOrEmpty | StateBeginStringOrEmpty | StateBeginString
  | StateEndValue | StateEndTop
  | StateInString | StateInStringEsc
  | StateInStringEscU | StateInStringEscU1 | StateInStringEscU12 | StateInStringEscU123
  | StateNeg | State0 | State1 | StateDot | StateDot0 | StateE | StateESign | StateE0
  | StateT | StateTr | StateTru
  | StateF | StateFa | StateFal | StateFals
  | StateN | StateNu | StateNul
  | StateError

record scanner =
  sc_step :: scan_state
  sc_parseState :: "parse_state list"
  sc_endTop :: bool
  sc_err :: "error option"

definition scanner_reset :: scanner where
  "scanner_reset = \<lparr>sc_step = StateBeginValue, sc_parseState = [], sc_endTop = False, sc_err = None\<rparr>"

definition isSpace :: "char \<Rightarrow> bool" where
  "isSpace c \<longleftrightarrow> c = CHR '' '' \<or> c = CHR 0x09 \<or> c = CHR 0x0D \<or> c = CHR 0x0A"

definition isDigit :: "char \<Rightarrow> bool" where
  "isDigit c \<longleftrightarrow> c \<in> set ''0123456789''"

definition isHex :: "char \<Rightarrow> bool" where
  "isHex c \<longleftrightarrow> c \<in> set ''0123456789abcdefABCDEF''"

text \<open>An error records the offending byte and where it was met, and stops the machine.\<close>

definition scan_error :: "scanner \<Rightarrow> char \<Rightarrow> string \<Rightarrow> scan_op \<times> scanner" where
  "scan_error s c context =
     (ScanError, s\<lparr>sc_step := StateError, sc_err := Some (SyntaxError c context)\<rparr>)"

definition goto :: "scan_state \<Rightarrow> scan_op \<Rightarrow> scanner \<Rightarrow> scan_op \<times> scanner" where
  "goto st op s = (op, s\<lparr>sc_step := st\<rparr>)"

text \<open>
  After the top-level value, a byte that is not white space is an error that the
  machine reports at its next step; this step still says that the value has ended.
\<close>

definition stateEndTop :: "scanner \<Rightarrow> char \<Rightarrow> scan_op \<times> scanner" where
  "stateEndTop s c =
     (if \<not> isSpace c then (ScanEnd, snd (scan_error s c ''after top-level value''))
      else (ScanEnd, s))"

definition popParseState :: "scanner \<Rightarrow> scanner" where
  "popParseState s =
     (if tl (sc_parseState s) = []
      then s\<lparr>sc_parseState := [], sc_step := StateEndTop, sc_endTop := True\<rparr>
      else s\<lparr>sc_parseState := tl (sc_parseState s), sc_step := StateEndValue\<rparr>)"

definition stateEndValue :: "scanner \<Rightarrow> char \<Rightarrow> scan_op \<times> scanner" where
  "stateEndValue s c =
     (case sc_parseState s of
        [] \<Rightarrow> stateEndTop (s\<lparr>sc_step := StateEndTop, sc_endTop := True\<rparr>) c
      | ps # rest \<Rightarrow>
          if isSpace c then goto StateEndValue ScanSkipSpace s
          else (case ps of
            ParseObjectKey \<Rightarrow>
              if c = CHR '':''
              then (ScanObjectKey, s\<lparr>sc_parseState := ParseObjectValue # rest, sc_step := StateBeginValue\<rparr>)
              else scan_error s c ''after object key''
          | ParseObjectValue \<Rightarrow>
              if c = CHR '',''
              then (ScanObjectValue, s\<lparr>sc_parseState := ParseObjectKey # rest, sc_step := StateBeginString\<rparr>)
              else if c = CHR ''}'' then (ScanEndObject, popParseState s)
              else scan_error s c ''after object key:value pair''
          | ParseArrayValue \<Rightarrow>
              if c = CHR '','' then goto StateBeginValue ScanArrayValue s
              else if c = CHR '']'' then (ScanEndArray, popParseState s)
              else scan_error s c ''after array element''))"

definition stateBeginValue :: "scanner \<Rightarrow> char \<Rightarrow> scan_op \<times> scanner" where
  "stateBeginValue s c =
     (if isSpace c then (ScanSkipSpace, s)
      else if c = CHR ''{''
        then (ScanBeginObject,
              s\<lparr>sc_step := StateBeginStringOrEmpty, sc_parseState := ParseObjectKey # sc_parseState s\<rparr>)
      else if c = CHR ''[''
        then (ScanBeginArray,
              s\<lparr>sc_step := StateBeginValueOrEmpty, sc_parseState := ParseArrayValue # sc_parseState s\<rparr>)
      else if c = CHR 0x22 then goto StateInString ScanBeginLiteral s
      else if c = CHR ''-'' then goto StateNeg ScanBeginLiteral s
      else if c = CHR ''0'' then goto State0 ScanBeginLiteral s
      else if c = CHR ''t'' then goto StateT ScanBeginLiteral s
      else if c = CHR ''f'' then goto StateF ScanBeginLiteral s
      else if c = CHR ''n'' then goto StateN ScanBeginLiteral s
      else if isDigit c then goto State1 ScanBeginLiteral s
      else scan_error s c ''looking for beginning of value'')"

definition stateBeginValueOrEmpty :: "scanner \<Rightarrow> char \<Rightarrow> scan_op \<times> scanner" where
  "stateBeginValueOrEmpty s c =
     (if isSpace c then (ScanSkipSpace, s)
      else if c = CHR '']'' then stateEndValue s c
      else stateBeginValue s c)"

definition stateBeginString :: "scanner \<Rightarrow> char \<Rightarrow> scan_op \<times> scanner" where
  "stateBeginString s c =
     (if isSpace c then (ScanSkipSpace, s)
      else if c = CHR 0x22 then goto StateInString ScanBeginLiteral s
      else scan_error s c ''looking for beginning of object key string'')"

definition stateBeginStringOrEmpty :: "scanner \<Rightarrow> char \<Rightarrow> scan_op \<times> scanner" where
  "stateBeginStringOrEmpty s c =
     (if isSpace c then (ScanSkipSpace, s)
      else if c = CHR ''}''
        then stateEndValue (s\<lparr>sc_parseState := ParseObjectValue # tl (sc_parseState s)\<rparr>) c
      else stateBeginString s c)"

definition stateInString :: "scanner \<Rightarrow> char \<Rightarrow> scan_op \<times> scanner" where
  "stateInString s c =
     (if c = CHR 0x22 then goto StateEndValue ScanContinue s
      else if c = CHR 0x5C then goto StateInStringEsc ScanContinue s
      else if (of_char c :: nat) < 0x20 then scan_error s c ''in string literal''
      else (ScanContinue, s))"

definition stateInStringEsc :: "scanner \<Rightarrow> char \<Rightarrow> scan_op \<times> scanner" where
  "stateInStringEsc s c =
     (if c \<in> set ''bfnrt/'' \<or> c = CHR 0x5C \<or> c = CHR 0x22 then goto StateInString ScanContinue s
      else if c = CHR ''u'' then goto StateInStringEscU ScanContinue s
      else scan_error s c ''in string escape code'')"

definition stateInStringEscU :: "scan_state \<Rightarrow> scanner \<Rightarrow> char \<Rightarrow> scan_op \<times> scanner" where
  "stateInStringEscU next s c =
     (if isHex c then goto next ScanContinue s
      else scan_error s c (''in '' @ [CHR 0x5C] @ ''u hexadecimal character escape''))"

definition stateNeg :: "scanner \<Rightarrow> char \<Rightarrow> scan_op \<times> scanner" where
  "stateNeg s c =
     (if c = CHR ''0'' then goto State0 ScanContinue s
      else if isDigit c then goto State1 ScanContinue s
      else scan_error s c ''in numeric literal'')"

definition state0 :: "scanner \<Rightarrow> char \<Rightarrow> scan_op \<times> scanner" where
  "state0 s c =
     (if c = CHR ''.'' then goto StateDot ScanContinue s
      else if c = CHR ''e'' \<or> c = CHR ''E'' then goto StateE ScanContinue s
      else stateEndValue s c)"

definition state1 :: "scanner \<Rightarrow> char \<Rightarrow> scan_op \<times> scanner" where
  "state1 s c = (if isDigit c then goto State1 ScanContinue s else state0 s c)"

definition stateDot :: "scanner \<Rightarrow> char \<Rightarrow> scan_op \<times> scanner" where
  "stateDot s c =
     (if isDigit c then goto StateDot0 ScanContinue s
      else scan_error s c ''after decimal point in numeric literal'')"

definition stateDot0 :: "scanner \<Rightarrow> char \<Rightarrow> scan_op \<times> scanner" where
  "stateDot0 s c =
     (if isDigit c then (ScanContinue, s)
      else if c = CHR ''e'' \<or> c = CHR ''E'' then goto StateE ScanContinue s
      else stateEndValue s c)"

definition stateESign :: "scanner \<Rightarrow> char \<Rightarrow> scan_op \<times> scanner" where
  "stateESign s c =
     (if isDigit c then goto StateE0 ScanContinue s
      else scan_error s c ''in exponent of numeric literal'')"

definition stateE :: "scanner \<Rightarrow> char \<Rightarrow> scan_op \<times> scanner" where
  "stateE s c =
     (if c = CHR ''+'' \<or> c = CHR ''-'' then goto StateESign ScanContinue s
      else stateESign s c)"

definition stateE0 :: "scanner \<Rightarrow> char \<Rightarrow> scan_op \<times> scanner" where
  "stateE0 s c = (if isDigit c then (ScanContinue, s) else stateEndValue s c)"

text \<open>The literals \<^verbatim>\<open>true\<close>, \<^verbatim>\<open>false\<close> and \<^verbatim>\<open>null\<close>, letter by letter.\<close>

definition stateLetter :: "char \<Rightarrow> scan_state \<Rightarrow> string \<Rightarrow> scanner \<Rightarrow> char \<Rightarrow> scan_op \<times> scanner" where
  "stateLetter want next context s c =
     (if c = want then goto next ScanContinue s else scan_error s c context)"

definition scan_step :: "scanner \<Rightarrow> char \<Rightarrow> scan_op \<times> scanner" where
  "scan_step s c =
     (case sc_step s of
        StateBeginValue \<Rightarrow> stateBeginValue s c
      | StateBeginValueOrEmpty \<Rightarrow> stateBeginValueOrEmpty s c
      | StateBeginStringOrEmpty \<Rightarrow> stateBeginStringOrEmpty s c
      | StateBeginString \<Rightarrow> stateBeginString s c
      | StateEndValue \<Rightarrow> stateEndValue s c
      | StateEndTop \<Rightarrow> stateEndTop s c
      | StateInString \<Rightarrow> stateInString s c
      | StateInStringEsc \<Rightarrow> stateInStringEsc s c
      | StateInStringEscU \<Rightarrow> stateInStringEscU StateInStringEscU1 s c
      | StateInStringEscU1 \<Rightarrow> stateInStringEscU StateInStringEscU12 s c
      | StateInStringEscU12 \<Rightarrow> stateInStringEscU StateInStringEscU123 s c
      | StateInStringEscU123 \<Rightarrow> stateInStringEscU StateInString s c
      | StateNeg \<Rightarrow> stateNeg s c
      | State0 \<Rightarrow> state0 s c
      | State1 \<Rightarrow> state1 s c
      | StateDot \<Rightarrow> stateDot s c
      | StateDot0 \<Rightarrow> stateDot0 s c
      | StateE \<Rightarrow> stateE s c
      | StateESign \<Rightarrow> stateESign s c
      | StateE0 \<Rightarrow> stateE0 s c
      | StateT \<Rightarrow> stateLetter (CHR ''r'') StateTr ''in literal true (expecting 'r')'' s c
      | StateTr \<Rightarrow> stateLetter (CHR ''u'') StateTru ''in literal true (expecting 'u')'' s c
      | StateTru \<Rightarrow> stateLetter (CHR ''e'') StateEndValue ''in literal true (expecting 'e')'' s c
      | StateF \<Rightarrow> stateLetter (CHR ''a'') StateFa ''in literal false (expecting 'a')'' s c
      | StateFa \<Rightarrow> stateLetter (CHR ''l'') StateFal ''in literal false (expecting 'l')'' s c
      | StateFal \<Rightarrow> stateLetter (CHR ''s'') StateFals ''in literal false (expecting 's')'' s c
      | StateFals \<Rightarrow> stateLetter (CHR ''e'') StateEndValue ''in literal false (expecting 'e')'' s c
      | StateN \<Rightarrow> stateLetter (CHR ''u'') StateNu ''in literal null (expecting 'u')'' s c
      | StateNu \<Rightarrow> stateLetter (CHR ''l'') StateNul ''in literal null (expecting 'l')'' s c
      | StateNul \<Rightarrow> stateLetter (CHR ''l'') StateEndValue ''in literal null (expecting 'l')'' s c
      | StateError \<Rightarrow> (ScanError, s))"

definition scanner_error :: "scanner \<Rightarrow> error" where
  "scanner_error s = (case sc_err s of Some e \<Rightarrow> e | None \<Rightarrow> Error [])"

text \<open>
  The decoder's \<^verbatim>\<open>readValue\<close>: it steps the scanner over the body and returns the bytes
  of the first value. The value has ended when the scanner says so (one byte late,
  after a literal) or when the object or array that is the top-level value closes; the
  bytes after it are not stepped over. At the end of the body the value may end there;
  otherwise the body ended inside a value, or held white space only.
\<close>

fun readValue_from :: "scanner \<Rightarrow> string \<Rightarrow> string \<Rightarrow> error + string" where
  "readValue_from s seen [] =
     (if fst (scan_step s (CHR '' '')) = ScanEnd then Inr seen
      else if list_ex (\<lambda>c. \<not> isSpace c) seen then Inl UnexpectedEOF
      else Inl EOF)"
| "readValue_from s seen (c # cs) =
     (case scan_step s c of
        (ScanEnd, s1) \<Rightarrow> Inr seen
      | (ScanEndObject, s1) \<Rightarrow>
          (case stateEndValue s1 (CHR '' '') of
             (ScanEnd, s2) \<Rightarrow> Inr (seen @ [c])
           | (_, s2) \<Rightarrow> readValue_from s2 (seen @ [c]) cs)
      | (ScanEndArray, s1) \<Rightarrow>
          (case stateEndValue s1 (CHR '' '') of
             (ScanEnd, s2) \<Rightarrow> Inr (seen @ [c])
           | (_, s2) \<Rightarrow> readValue_from s2 (seen @ [c]) cs)
      | (ScanError, s1) \<Rightarrow> Inl (scanner_error s1)
      | (_, s1) \<Rightarrow> readValue_from s1 (seen @ [c]) cs)"

definition readValue :: "string \<Rightarrow> error + string" where
  "readValue body = readValue_from scanner_reset [] body"

text \<open>
  \<^verbatim>\<open>Decode\<close>: read the first value, then unmarshal it. Unmarshalling into the message
  type is a parameter.
\<close>

definition Decode :: "(string \<Rightarrow> error + WebhookMessage) \<Rightarrow> string \<Rightarrow> error + WebhookMessage" where
  "Decode unmarshal body =
     (case readValue body of
        Inl e \<Rightarrow> Inl e
      | Inr v \<Rightarrow> unmarshal v)"

text \<open>
  Well-formed JSON is what the package's \<^verbatim>\<open>Valid\<close> accepts: the scanner steps over
  every byte of the text without an error, and the text ends where a top-level value
  has ended.
\<close>

fun checkValid :: "scanner \<Rightarrow> string \<Rightarrow> error option" where
  "checkValid s [] =
     (if sc_err s \<noteq> None then sc_err s
      else if sc_endTop s then None
      else if sc_endTop (snd (scan_step s (CHR '' ''))) then None
      else if sc_err (snd (scan_step s (CHR '' ''))) \<noteq> None then sc_err (snd (scan_step s (CHR '' '')))
      else Some (Error ''unexpected end of JSON input''))"
| "checkValid s (c # cs) =
     (case scan_step s c of
        (ScanError, s1) \<Rightarrow> Some (scanner_error s1)
      | (_, s1) \<Rightarrow> checkValid s1 cs)"

definition json_Valid :: "string \<Rightarrow> bool" where
  "json_Valid data \<longleftrightarrow> checkValid scanner_reset data = None"

section \<open>Webhook receiver\<close>

record request =
  req_method :: string
  req_path :: string
  req_body :: string

text \<open>
  What a handler wrote to its \<^verbatim>\<open>http.ResponseWriter\<close>: the status it set, if it set
  one, and the body.
\<close>

record response =
  resp_status :: "nat option"
  resp_body :: string

definition no_response :: response where
  "no_response = \<lparr>resp_status = None, resp_body = []\<rparr>"

datatype outcome = Returned | BlockedOnSend | Panicked

text \<open>
  Source lines 106-119. The handler decodes the body and sends the message on the
  channel; it reads neither the method nor the path of the request and writes nothing
  to the response.
\<close>

definition handler :: "'t env \<Rightarrow> request \<Rightarrow> sys \<Rightarrow> (outcome \<times> response) \<times> sys" where
  "handler E r s =
     (case Decode (json_Unmarshal E) (req_body r) of
        Inl err \<Rightarrow>
          ((Returned, no_response), s\<lparr>wld := emit (Stderr ''Invalid webhook: '' err) (wld s)\<rparr>)
      | Inr wh \<Rightarrow>
          (case chan_send wh (hookChan s) of
             (SendHandoff, c) \<Rightarrow> ((Returned, no_response), s\<lparr>hookChan := c, worker_at := Got wh\<rparr>)
           | (SendBuffered, c) \<Rightarrow> ((Returned, no_response), s\<lparr>hookChan := c\<rparr>)
           | (SendParked, c) \<Rightarrow> ((BlockedOnSend, no_response), s\<lparr>hookChan := c\<rparr>)
           | (SendPanic, c) \<Rightarrow> ((Panicked, no_response), s)))"

text \<open>
  Source lines 105-106: the handler is registered on a \<^verbatim>\<open>ServeMux\<close> of \<^verbatim>\<open>net/http\<close>
  under the pattern \<^verbatim>\<open>"/"\<close>. A pattern that ends in a slash matches every path it is a
  prefix of, any other pattern only the equal path.
\<close>

definition pathMatch :: "string \<Rightarrow> string \<Rightarrow> bool" where
  "pathMatch pattern path =
     (if pattern = [] then False
      else if last pattern \<noteq> CHR ''/'' then pattern = path
      else length pattern \<le> length path \<and> take (length pattern) path = pattern)"

definition mux_patterns :: "string list" where
  "mux_patterns = [''/'']"

text \<open>
  Before it looks a path up, the mux brings it into canonical form: rooted, without
  empty, \<^verbatim>\<open>.\<close> and \<^verbatim>\<open>..\<close> elements, a trailing slash kept. The elements of a path are
  what stands between its slashes.
\<close>

fun split_path :: "string \<Rightarrow> string \<Rightarrow> string list" where
  "split_path cur [] = [cur]"
| "split_path cur (c # cs) =
     (if c = CHR ''/'' then cur # split_path [] cs else split_path (cur @ [c]) cs)"

fun clean_elements :: "string list \<Rightarrow> string list \<Rightarrow> string list" where
  "clean_elements out [] = out"
| "clean_elements out (e # es) =
     (if e = [] \<or> e = ''.'' then clean_elements out es
      else if e = ''..'' then clean_elements (butlast out) es
      else clean_elements (out @ [e]) es)"

fun join_path :: "string list \<Rightarrow> string" where
  "join_path [] = []"
| "join_path [e] = e"
| "join_path (e # es) = e @ ''/'' @ join_path es"

text \<open>\<^verbatim>\<open>path.Clean\<close> on a rooted path.\<close>

definition path_Clean :: "string \<Rightarrow> string" where
  "path_Clean p = ''/'' @ join_path (clean_elements [] (split_path [] p))"

definition cleanPath :: "string \<Rightarrow> string" where
  "cleanPath p =
     (if p = [] then ''/''
      else
        let p1 = (if hd p \<noteq> CHR ''/'' then ''/'' @ p else p);
            np = path_Clean p1
        in if last p1 = CHR ''/'' \<and> np \<noteq> ''/'' then np @ ''/'' else np)"

text \<open>
  How the mux answers a request: by the registered handler, or by itself. It answers
  the request target \<^verbatim>\<open>*\<close> with 400. For every method but CONNECT it answers a path that
  is not in canonical form with a redirect (301) to the canonical path. A path that
  no pattern matches gets 404. In none of these cases is the handler called.
\<close>

datatype answer =
    Handled outcome response
  | BadRequest
  | MovedPermanently string
  | NotFound

definition ServeHTTP :: "'t env \<Rightarrow> request \<Rightarrow> sys \<Rightarrow> answer \<times> sys" where
  "ServeHTTP E r s =
     (if req_path r = ''*'' then (BadRequest, s)
      else if req_method r \<noteq> ''CONNECT'' \<and> cleanPath (req_path r) \<noteq> req_path r
        then (MovedPermanently (cleanPath (req_path r)), s)
      else (case find (\<lambda>p. pathMatch p (req_path r)) mux_patterns of
              Some p \<Rightarrow> (case handler E r s of ((out, resp), s1) \<Rightarrow> (Handled out resp, s1))
            | None \<Rightarrow> (NotFound, s)))"

section \<open>Runs of the process\<close>

text \<open>
  Between start-up and the termination signal the process is driven by the requests
  that arrive and by the turns of the worker goroutine, in any interleaving. A run
  is the list of these actions; the states the process can be in are the states
  \<open>run_actions E t acts sys_init\<close>.
\<close>

datatype action = Request request | WorkerTurn

fun run_actions :: "'t env \<Rightarrow> 't \<Rightarrow> action list \<Rightarrow> sys \<Rightarrow> sys" where
  "run_actions E t [] s = s"
| "run_actions E t (Request r # acts) s = run_actions E t acts (snd (ServeHTTP E r s))"
| "run_actions E t (WorkerTurn # acts) s = run_actions E t acts (worker E t s)"

section \<open>Shutdown\<close>







section \<open>Reading traces\<close>

text \<open>The captures of a trace, in order, each with its packet and tags.\<close>

fun captures :: "event list \<Rightarrow> (Packet \<times> KV) list" where
  "captures [] = []"
| "captures (Capture p k # es) = (p, k) # captures es"
| "captures (Stderr f e # es) = captures es"
| "captures (AwaitAck # es) = captures es"
| "captures (LogPrintf i n # es) = captures es"

text \<open>
  In an acknowledged trace, the event right after each capture is the wait for its
  acknowledgment: nothing else happens between a submission and its acknowledgment,
  and a trace does not end on an unacknowledged capture.
\<close>

fun acked :: "event list \<Rightarrow> bool" where
  "acked [] = True"
| "acked (Capture p k # es) = (case es of AwaitAck # es' \<Rightarrow> acked es' | _ \<Rightarrow> False)"
| "acked (Stderr f e # es) = acked es"
| "acked (AwaitAck # es) = acked es"
| "acked (LogPrintf i n # es) = acked es"

definition no_world :: world where
  "no_world = \<lparr>trace = [], dispatched = 0\<rparr>"

text \<open>The message the worker puts into the packet of an alert, and what it logs for it.\<close>

definition message_of :: "'t env \<Rightarrow> 't \<Rightarrow> Alert \<Rightarrow> string" where
  "message_of E t alert = fst (render_message E t alert no_world)"

definition stderr_of :: "'t env \<Rightarrow> 't \<Rightarrow> Alert \<Rightarrow> event list" where
  "stderr_of E t alert = trace (snd (render_message E t alert no_world))"

text \<open>The events of one alert that is the \<open>n\<close>-th dispatch, and of a sequence of alerts.\<close>

definition alert_events :: "'t env \<Rightarrow> 't \<Rightarrow> nat \<Rightarrow> Alert \<Rightarrow> event list" where
  "alert_events E t n alert =
     (let packet = build_packet (time_Now E n) (message_of E t alert) alert
      in stderr_of E t alert @
         [Capture packet (Labels alert), AwaitAck,
          LogPrintf (raven_Capture E n packet (Labels alert)) (kv_index (Labels alert) ''alertname'')])"

fun alerts_events :: "'t env \<Rightarrow> 't \<Rightarrow> nat \<Rightarrow> Alert list \<Rightarrow> event list" where
  "alerts_events E t n [] = []"
| "alerts_events E t n (a # as) = alert_events E t n a @ alerts_events E t (Suc n) as"

section \<open>States of a run\<close>

text \<open>The invariant of these states.\<close>

definition sys_inv :: "sys \<Rightarrow> bool" where
  "sys_inv s \<longleftrightarrow>
     ch_cap (hookChan s) = 0 \<and> ch_buf (hookChan s) = [] \<and> \<not> ch_closed (hookChan s) \<and>
     ch_recvq (hookChan s) = (if worker_at s = Parked then 1 else 0) \<and>
     (worker_at s = Parked \<longrightarrow> ch_sendq (hookChan s) = []) \<and>
     worker_at s \<noteq> Exited"

text \<open>
  Two states agree on what drives the process: the channel, where the worker is, and
  how many dispatches were made. They may differ in the trace written so far.
\<close>

definition same_control :: "sys \<Rightarrow> sys \<Rightarrow> bool" where
  "same_control s s' \<longleftrightarrow>
     hookChan s = hookChan s' \<and> worker_at s = worker_at s' \<and>
     dispatched (wld s) = dispatched (wld s')"


text \<open>The worker turns among the actions of a run.\<close>

fun worker_turns :: "action list \<Rightarrow> nat" where
  "worker_turns [] = 0"
| "worker_turns (Request r # acts) = worker_turns acts"
| "worker_turns (WorkerTurn # acts) = Suc (worker_turns acts)"

text \<open>
  The worker turns after which the worker has received the message that \<open>n\<close> blocked
  messages precede: two for each of these, to receive it and to process it, after the
  one that ends the processing of the message the worker holds, if it holds one, and
  the one that receives the message itself.
\<close>

definition turns_until :: "wstatus \<Rightarrow> nat \<Rightarrow> nat" where
  "turns_until w n = 2 * n + (if w = AtRange then 1 else 2)"


section \<open>The spec's reading of rendering\<close>

text \<open>
  A template that references label and annotation keys and nothing else: each node is
  literal text that opens no tag, or a reference to a key.
\<close>

fun is_key_ref :: "node \<Rightarrow> bool" where
  "is_key_ref (TextNode s) = (CHR ''<'' \<notin> set s)"
| "is_key_ref (FieldNode f k sub) = (sub = [])"

text \<open>
  Rendering as the spec words it: literal text stands for itself, and a reference to a
  key stands for the value of the key, or for the empty string when the alert has no
  such key. \<open>subst_escaped\<close> writes the value through the HTML escaper, as the engine
  does; \<open>subst_literal\<close> writes the value as it is.
\<close>

fun subst_escaped :: "Alert \<Rightarrow> node \<Rightarrow> string" where
  "subst_escaped a (TextNode s) = s"
| "subst_escaped a (FieldNode f k sub) =
     (case alert_kv f a k of None \<Rightarrow> [] | Some v \<Rightarrow> htmlEscaper v)"

fun subst_literal :: "Alert \<Rightarrow> node \<Rightarrow> string" where
  "subst_literal a (TextNode s) = s"
| "subst_literal a (FieldNode f k sub) =
     (case alert_kv f a k of None \<Rightarrow> [] | Some v \<Rightarrow> v)"

section \<open>Example inputs\<close>

text \<open>The alert of the spec's concrete scenario, at any start and end time.\<close>

definition pod_down :: "time \<Rightarrow> time \<Rightarrow> Alert" where
  "pod_down t0 t1 =
     \<lparr>Status = ''firing'',
      Labels = [''alertname'' \<mapsto> ''PodDown'', ''namespace'' \<mapsto> ''prod'', ''pod_name'' \<mapsto> ''web-1''],
      Annotations = [''message'' \<mapsto> ''pod unresponsive''],
      StartsAt = t0, EndsAt = t1, GeneratorURL = []\<rparr>"

text \<open>An alert with no labels and no annotations, and one whose values carry markup.\<close>

definition bare_alert :: Alert where
  "bare_alert =
     \<lparr>Status = ''firing'', Labels = Map.empty, Annotations = Map.empty,
      StartsAt = 0, EndsAt = 0, GeneratorURL = []\<rparr>"

definition markup_alert :: Alert where
  "markup_alert =
     \<lparr>Status = ''firing'',
      Labels = [''alertname'' \<mapsto> ''Load>5'', ''namespace'' \<mapsto> ''a&b'', ''pod_name'' \<mapsto> ''<web>''],
      Annotations = [''message'' \<mapsto> ''it's down''],
      StartsAt = 0, EndsAt = 0, GeneratorURL = []\<rparr>"

text \<open>
  A template that cannot execute against an alert: \<^verbatim>\<open>{{ .Labels.alertname.first }}\<close> asks
  for a field of a string.
\<close>

definition broken_template :: template where
  "broken_template = new_template [TextNode ''alert '', FieldNode LabelsField ''alertname'' [''first'']]"

text \<open>
  Two webhook messages and the JSON texts they are unmarshalled from (times in
  seconds since 1970).
\<close>

definition two_alerts :: WebhookMessage where
  "two_alerts = \<lparr>Alerts = [pod_down 100 0, bare_alert], Version = ''4'', GroupKey = ''g''\<rparr>"

definition two_alerts_json :: string where
  \<open>two_alerts_json =
     ''{"version":"4","groupKey":"g","alerts":['' @
     ''{"status":"firing","labels":{"alertname":"PodDown","namespace":"prod","pod_name":"web-1"},'' @
     ''"annotations":{"message":"pod unresponsive"},'' @
     ''"startsAt":"1970-01-01T00:01:40Z","endsAt":"1970-01-01T00:00:00Z"},'' @
     ''{"status":"firing","startsAt":"1970-01-01T00:00:00Z","endsAt":"1970-01-01T00:00:00Z"}]}''\<close>

definition up_alert :: Alert where
  "up_alert =
     \<lparr>Status = [], Labels = [''alertname'' \<mapsto> ''Up''], Annotations = Map.empty,
      StartsAt = 0, EndsAt = 0, GeneratorURL = []\<rparr>"

definition one_alert :: WebhookMessage where
  "one_alert = \<lparr>Alerts = [up_alert], Version = [], GroupKey = []\<rparr>"

definition one_alert_json :: string where
  \<open>one_alert_json =
     ''{"alerts":[{"labels":{"alertname":"Up"},'' @
     ''"startsAt":"1970-01-01T00:00:00Z","endsAt":"1970-01-01T00:00:00Z"}]}''\<close>

text \<open>
  An environment for the examples: the engine above, a clock that ticks once per
  dispatch, a client that returns a fixed identifier, and an unmarshaller that knows
  the two texts.
\<close>

definition example_env :: "template env" where
  "example_env =
     \<lparr>tmpl_Execute = Execute,
      time_Now = (\<lambda>n. 1000 + int n),
      raven_Capture = (\<lambda>n p k. ''event''),
      json_Unmarshal = (\<lambda>v.
         if v = two_alerts_json then Inr two_alerts
         else if v = one_alert_json then Inr one_alert
         else Inl (Error ''json: cannot unmarshal''))\<rparr>"

definition good_request :: request where
  "good_request = \<lparr>req_method = ''POST'', req_path = ''/'', req_body = two_alerts_json\<rparr>"

definition other_request :: request where
  "other_request = \<lparr>req_method = ''POST'', req_path = ''/'', req_body = one_alert_json\<rparr>"

definition bad_request :: request where
  "bad_request = \<lparr>req_method = ''POST'', req_path = ''/'', req_body = ''{''\<rparr>"

definition get_request :: request where
  "get_request = \<lparr>req_method = ''GET'', req_path = ''/metrics'', req_body = two_alerts_json\<rparr>"

text \<open>
  A body that is not well-formed JSON: a JSON object, then closing braces and words.
\<close>

definition trailing_request :: request where
  "trailing_request =
     \<lparr>req_method = ''POST'', req_path = ''/'', req_body = one_alert_json @ ''}}} not json''\<rparr>"

text \<open>Requests to paths that are not in canonical form.\<close>

definition unclean_request :: request where
  "unclean_request = \<lparr>req_method = ''POST'', req_path = ''//metrics'', req_body = two_alerts_json\<rparr>"

definition dotdot_request :: request where
  "dotdot_request = \<lparr>req_method = ''POST'', req_path = ''/a/../hook'', req_body = two_alerts_json\<rparr>"



section \<open>The worker's trace\<close>

lemma render_message_eq:
  "render_message E t alert w = (message_of E t alert, w\<lparr>trace := trace w @ stderr_of E t alert\<rparr>)"
  by (simp add: render_message_def message_of_def stderr_of_def no_world_def emit_def
      split: prod.splits option.splits)

lemma worker_alert_eq:
  "worker_alert E t alert w =
     \<lparr>trace = trace w @ alert_events E t (dispatched w) alert, dispatched = Suc (dispatched w)\<rparr>"
  by (simp add: worker_alert_def render_message_eq alert_events_def emit_def Let_def)

lemma worker_alerts_eq:
  "worker_alerts E t as w =
     \<lparr>trace = trace w @ alerts_events E t (dispatched w) as, dispatched = dispatched w + length as\<rparr>"
  by (induction as arbitrary: w) (simp_all add: worker_alert_eq)

lemma captures_append: "captures (xs @ ys) = captures xs @ captures ys"
  by (induction xs rule: captures.induct) simp_all

lemma acked_append: "acked xs \<Longrightarrow> acked ys \<Longrightarrow> acked (xs @ ys)"
  by (induction xs rule: acked.induct) (auto split: list.splits event.splits)

lemma captures_stderr_of: "captures (stderr_of E t a) = []"
  by (simp add: stderr_of_def render_message_def no_world_def emit_def split: prod.splits option.splits)

lemma acked_stderr_of: "acked (stderr_of E t a)"
  by (simp add: stderr_of_def render_message_def no_world_def emit_def split: prod.splits option.splits)

lemma captures_alert_events:
  "captures (alert_events E t n a) = [(build_packet (time_Now E n) (message_of E t a) a, Labels a)]"
  by (simp add: alert_events_def Let_def captures_append captures_stderr_of)

lemma acked_alert_events: "acked (alert_events E t n a)"
  by (simp add: alert_events_def Let_def acked_append acked_stderr_of)

lemma captures_alerts_events:
  "captures (alerts_events E t n as) =
     map (\<lambda>(i, a). (build_packet (time_Now E i) (message_of E t a) a, Labels a)) (enumerate n as)"
  by (induction as arbitrary: n) (simp_all add: captures_append captures_alert_events)

lemma acked_alerts_events: "acked (alerts_events E t n as)"
  by (induction as arbitrary: n) (simp_all add: acked_append acked_alert_events)

text \<open>
  C1. When the worker has dequeued a message with N alerts, its loop body makes
  exactly N captures, the i-th with the packet and the tags of the i-th alert, and
  the event after each capture is the wait for its acknowledgment; the worker is then
  back at the head of its loop.
\<close>

theorem worker_dispatches_each_alert_in_order:
  "\<exists>new. trace (wld (worker E t (s\<lparr>worker_at := Got wh\<rparr>))) = trace (wld s) @ new
     \<and> length (captures new) = length (Alerts wh)
     \<and> captures new =
         map (\<lambda>(i, a). (build_packet (time_Now E i) (message_of E t a) a, Labels a))
           (enumerate (dispatched (wld s)) (Alerts wh))
     \<and> acked new
     \<and> worker_at (worker E t (s\<lparr>worker_at := Got wh\<rparr>)) = AtRange"
  by (simp add: worker_def worker_message_def worker_alerts_eq captures_alerts_events acked_alerts_events)

section \<open>Rendering\<close>

lemmas engine_defs =
  Execute_def new_template_def defaultTemplate_def evalFieldNode_def evalKey_def alert_kv_def
  htmlEscaper_def htmlReplacement_def

text \<open>
  C2. For the alert with labels alertname PodDown, namespace prod, pod_name web-1 and
  annotation message "pod unresponsive", at any start and end time, the default
  template renders exactly "PodDown - prod/web-1", a newline, "pod unresponsive"; the
  packet the worker captures for it carries that message, the fingerprint
  [PodDown, prod, web-1] and the server name prod/web-1.
\<close>

theorem default_template_pod_down:
  "\<exists>p. Execute (new_template defaultTemplate) [] (pod_down t0 t1) =
          (''PodDown - prod/web-1'' @ [CHR 0x0A] @ ''pod unresponsive'', None)
     \<and> captures (trace (worker_alert (E\<lparr>tmpl_Execute := Execute\<rparr>) (new_template defaultTemplate)
          (pod_down t0 t1) w)) = captures (trace w) @ [(p, Labels (pod_down t0 t1))]
     \<and> Message p = ''PodDown - prod/web-1'' @ [CHR 0x0A] @ ''pod unresponsive''
     \<and> Fingerprint p = [''PodDown'', ''prod'', ''web-1'']
     \<and> ServerName p = ''prod/web-1''"
proof -
  have ex: "Execute (new_template defaultTemplate) [] (pod_down t0 t1) =
      (''PodDown - prod/web-1'' @ [CHR 0x0A] @ ''pod unresponsive'', None)"
    by (simp add: engine_defs pod_down_def)
  have msg: "message_of (E\<lparr>tmpl_Execute := Execute\<rparr>) (new_template defaultTemplate) (pod_down t0 t1) =
      ''PodDown - prod/web-1'' @ [CHR 0x0A] @ ''pod unresponsive''"
    by (simp add: message_of_def render_message_def ex)
  show ?thesis
    by (simp add: ex worker_alert_eq captures_append captures_alert_events msg)
       (simp add: build_packet_def kv_index_def pod_down_def)
qed

text \<open>
  C9. There is an alert whose values contain HTML-significant characters (here
  \<open>>\<close>, \<open>&\<close>, \<open><\<close> and an apostrophe) for which the message the worker dispatches under the
  default template carries the character references of these characters, and so
  differs from the literal substitution of the alert's values.
\<close>

theorem html_escaping_changes_message:
  "\<exists>p. captures (trace (worker_alert (E\<lparr>tmpl_Execute := Execute\<rparr>) (new_template defaultTemplate)
          markup_alert w)) = captures (trace w) @ [(p, Labels markup_alert)]
     \<and> Message p = ''Load&gt;5 - a&amp;b/&lt;web&gt;'' @ [CHR 0x0A] @ ''it&#39;s down''
     \<and> concat (map (subst_literal markup_alert) defaultTemplate) =
          ''Load>5 - a&b/<web>'' @ [CHR 0x0A] @ ''it's down''
     \<and> Message p \<noteq> concat (map (subst_literal markup_alert) defaultTemplate)"
proof -
  have ex: "Execute (new_template defaultTemplate) [] markup_alert =
      (''Load&gt;5 - a&amp;b/&lt;web&gt;'' @ [CHR 0x0A] @ ''it&#39;s down'', None)"
    by (simp add: engine_defs markup_alert_def)
  have msg: "message_of (E\<lparr>tmpl_Execute := Execute\<rparr>) (new_template defaultTemplate) markup_alert =
      ''Load&gt;5 - a&amp;b/&lt;web&gt;'' @ [CHR 0x0A] @ ''it&#39;s down''"
    by (simp add: message_of_def render_message_def ex)
  have lit: "concat (map (subst_literal markup_alert) defaultTemplate) =
      ''Load>5 - a&b/<web>'' @ [CHR 0x0A] @ ''it's down''"
    by (simp add: defaultTemplate_def alert_kv_def markup_alert_def)
  show ?thesis
    by (simp add: worker_alert_eq captures_append captures_alert_events msg lit)
       (simp add: build_packet_def)
qed

lemma walk_key_refs:
  "list_all is_key_ref ns \<Longrightarrow>
     walk MissingKeyZero a ns buf = (buf @ concat (map (subst_escaped a) ns), None)"
proof (induction ns arbitrary: buf)
  case Nil
  then show ?case by simp
next
  case (Cons n ns)
  then show ?case
    by (cases n) (auto simp: evalFieldNode_def evalKey_def htmlEscaper_def split: option.splits)
qed

text \<open>
  C4. For a template that references label and annotation keys only, created as the
  source creates it, rendering succeeds on every alert, whatever keys the alert lacks:
  the output is the text with each reference replaced by the (escaped) value of its
  key, and by the empty string where the alert has no such key. The worker then
  dispatches the rendered text, not the fallback.
\<close>

theorem missing_keys_render_empty:
  assumes "list_all is_key_ref ns"
  shows "Execute (new_template ns) buf alert = (buf @ concat (map (subst_escaped alert) ns), None)
     \<and> message_of (E\<lparr>tmpl_Execute := Execute\<rparr>) (new_template ns) alert =
         concat (map (subst_escaped alert) ns)
     \<and> (\<forall>f k sub. alert_kv f alert k = None \<longrightarrow> subst_escaped alert (FieldNode f k sub) = [])"
  using assms
  by (simp add: Execute_def new_template_def walk_key_refs message_of_def render_message_def)

theorem missing_keys_render_empty_witness:
  "list_all is_key_ref defaultTemplate
     \<and> Labels bare_alert ''alertname'' = None \<and> Annotations bare_alert ''message'' = None
     \<and> Execute (new_template defaultTemplate) [] bare_alert = ('' - /'' @ [CHR 0x0A], None)
     \<and> message_of (example_env\<lparr>tmpl_Execute := Execute\<rparr>) (new_template defaultTemplate) bare_alert
          = '' - /'' @ [CHR 0x0A]"
proof -
  have h: "list_all is_key_ref defaultTemplate"
    by (simp add: defaultTemplate_def)
  from missing_keys_render_empty [OF h, of "[]" bare_alert example_env]
  show ?thesis
    by (simp add: h) (simp add: defaultTemplate_def alert_kv_def bare_alert_def)
qed

text \<open>The option of source line 96 matters: under \<^verbatim>\<open>missingkey=error\<close> a missing key fails.\<close>

lemma missingkey_error_fails:
  "alert_kv f alert k = None \<Longrightarrow>
     Execute \<lparr>missingKey = MissingKeyError, tree = FieldNode f k [] # ns\<rparr> buf alert =
       (buf, Some (MapHasNoEntry k))"
  by (simp add: Execute_def evalFieldNode_def evalKey_def)

text \<open>
  C3. When executing the template on an alert fails, the worker writes the failure to
  standard error and still captures a packet for the alert, awaits it and logs it; the
  message of the packet is the alert's alertname label when the label is present and
  not empty, and the literal "fallback" otherwise; the loop goes on with the remaining
  alerts, so that a message of one failing alert and \<open>rest\<close> more alerts adds
  \<open>1 + length rest\<close> captures.
\<close>

theorem render_failure_falls_back:
  assumes "tmpl_Execute E t [] alert = (buf, Some err)"
  shows "\<exists>p eventID.
       trace (worker_alert E t alert w) =
         trace w @ [Stderr ''Invalid template: '' err, Capture p (Labels alert), AwaitAck,
                    LogPrintf eventID (kv_index (Labels alert) ''alertname'')]
     \<and> Message p = (case Labels alert ''alertname'' of
                      None \<Rightarrow> ''fallback''
                    | Some name \<Rightarrow> if name = [] then ''fallback'' else name)
     \<and> worker_alerts E t (alert # rest) w = worker_alerts E t rest (worker_alert E t alert w)
     \<and> length (captures (trace (worker_alerts E t (alert # rest) w))) =
         length (captures (trace w)) + 1 + length rest"
proof -
  have msg: "message_of E t alert =
      (case Labels alert ''alertname'' of None \<Rightarrow> ''fallback''
       | Some name \<Rightarrow> if name = [] then ''fallback'' else name)"
    using assms by (simp add: message_of_def render_message_def kv_index_def split: option.splits)
  have err: "stderr_of E t alert = [Stderr ''Invalid template: '' err]"
    using assms by (simp add: stderr_of_def render_message_def no_world_def emit_def)
  have len: "length (captures (trace (worker_alerts E t (alert # rest) w))) =
      length (captures (trace w)) + 1 + length rest"
    by (simp add: worker_alerts_eq worker_alert_eq captures_append captures_alert_events
        captures_alerts_events)
  show ?thesis
    using len by (simp add: worker_alert_eq alert_events_def Let_def err msg build_packet_def)
qed

theorem render_failure_falls_back_witness:
  "tmpl_Execute example_env broken_template [] (pod_down 100 0) =
       (''alert '', Some (CantEvaluateField ''first'' ''string''))
   \<and> tmpl_Execute example_env broken_template [] bare_alert =
       (''alert '', Some (CantEvaluateField ''first'' ''string''))
   \<and> (\<exists>p eventID. trace (worker_alert example_env broken_template (pod_down 100 0) no_world) =
         [Stderr ''Invalid template: '' (CantEvaluateField ''first'' ''string''),
          Capture p (Labels (pod_down 100 0)), AwaitAck, LogPrintf eventID ''PodDown'']
       \<and> Message p = ''PodDown'')
   \<and> (\<exists>p eventID. trace (worker_alert example_env broken_template bare_alert no_world) =
         [Stderr ''Invalid template: '' (CantEvaluateField ''first'' ''string''),
          Capture p (Labels bare_alert), AwaitAck, LogPrintf eventID []]
       \<and> Message p = ''fallback'')
   \<and> length (captures (trace (worker_alerts example_env broken_template
         [pod_down 100 0, bare_alert] no_world))) = 2"
proof -
  have h1: "tmpl_Execute example_env broken_template [] (pod_down 100 0) =
       (''alert '', Some (CantEvaluateField ''first'' ''string''))"
    by (simp add: example_env_def broken_template_def engine_defs pod_down_def)
  have h2: "tmpl_Execute example_env broken_template [] bare_alert =
       (''alert '', Some (CantEvaluateField ''first'' ''string''))"
    by (simp add: example_env_def broken_template_def engine_defs bare_alert_def)
  have a1: "Labels (pod_down 100 0) ''alertname'' = Some ''PodDown''"
    by (simp add: pod_down_def)
  have a2: "Labels bare_alert ''alertname'' = None"
    by (simp add: bare_alert_def)
  have w0: "trace no_world = []"
    by (simp add: no_world_def)
  from render_failure_falls_back [OF h1, of no_world "[bare_alert]"]
       render_failure_falls_back [OF h2, of no_world "[]"]
  show ?thesis
    unfolding a1 a2 w0 kv_index_def by (auto simp: h1 h2)
qed

section \<open>Invariant\<close>

lemma sys_inv_init: "sys_inv sys_init"
  by (simp add: sys_inv_def sys_init_def make_chan_def)

lemma sys_inv_worker: "sys_inv s \<Longrightarrow> sys_inv (worker E t s)"
  by (auto simp: sys_inv_def worker_def chan_recv_def split: wstatus.splits list.splits)

lemma sys_inv_handler: "sys_inv s \<Longrightarrow> sys_inv (snd (handler E r s))"
  by (auto simp: sys_inv_def handler_def chan_send_def split: sum.splits)

lemma ServeHTTP_state:
  "snd (ServeHTTP E r s) = s \<or> snd (ServeHTTP E r s) = snd (handler E r s)"
  by (auto simp: ServeHTTP_def split: option.splits prod.splits)

lemma sys_inv_ServeHTTP: "sys_inv s \<Longrightarrow> sys_inv (snd (ServeHTTP E r s))"
  using sys_inv_handler [of s E r] ServeHTTP_state [of E r s] by auto

lemma sys_inv_run: "sys_inv s \<Longrightarrow> sys_inv (run_actions E t acts s)"
  by (induction E t acts s rule: run_actions.induct)
     (simp_all add: sys_inv_worker sys_inv_ServeHTTP)

lemma sys_inv_reach: "sys_inv (run_actions E t acts sys_init)"
  by (simp add: sys_inv_run sys_inv_init)

lemma run_actions_append:
  "run_actions E t (acts @ acts2) s = run_actions E t acts2 (run_actions E t acts s)"
  by (induction E t acts s rule: run_actions.induct) simp_all

section \<open>Independence of the trace\<close>

lemma worker_indep:
  assumes "same_control s s'"
  shows "\<exists>new. trace (wld (worker E t s)) = trace (wld s) @ new
     \<and> trace (wld (worker E t s')) = trace (wld s') @ new
     \<and> same_control (worker E t s) (worker E t s')"
  using assms
  by (auto simp: same_control_def worker_def worker_message_def worker_alerts_eq
      split: wstatus.splits prod.splits recv_result.splits)

lemma handler_indep:
  assumes "same_control s s'"
  shows "\<exists>new. trace (wld (snd (handler E r s))) = trace (wld s) @ new
     \<and> trace (wld (snd (handler E r s'))) = trace (wld s') @ new
     \<and> same_control (snd (handler E r s)) (snd (handler E r s'))
     \<and> fst (handler E r s) = fst (handler E r s')"
  using assms
  by (auto simp: same_control_def handler_def emit_def
      split: sum.splits prod.splits send_result.splits)

lemma ServeHTTP_indep:
  assumes "same_control s s'"
  shows "\<exists>new. trace (wld (snd (ServeHTTP E r s))) = trace (wld s) @ new
     \<and> trace (wld (snd (ServeHTTP E r s'))) = trace (wld s') @ new
     \<and> same_control (snd (ServeHTTP E r s)) (snd (ServeHTTP E r s'))
     \<and> fst (ServeHTTP E r s) = fst (ServeHTTP E r s')"
proof (cases "fst (ServeHTTP E r s) = BadRequest \<or> fst (ServeHTTP E r s) = NotFound
    \<or> (\<exists>p. fst (ServeHTTP E r s) = MovedPermanently p)")
  case True
  with assms show ?thesis
    by (auto simp: ServeHTTP_def split: if_splits option.splits prod.splits)
next
  case False
  then have h: "ServeHTTP E r s = (Handled (fst (fst (handler E r s))) (snd (fst (handler E r s))), snd (handler E r s))"
    "ServeHTTP E r s' = (Handled (fst (fst (handler E r s'))) (snd (fst (handler E r s'))), snd (handler E r s'))"
    by (auto simp: ServeHTTP_def split: if_splits option.splits prod.splits)
  from handler_indep [OF assms, of E r] show ?thesis
    unfolding h by auto
qed

lemma run_actions_indep:
  "same_control s s' \<Longrightarrow>
   \<exists>new. trace (wld (run_actions E t acts s)) = trace (wld s) @ new
     \<and> trace (wld (run_actions E t acts s')) = trace (wld s') @ new
     \<and> same_control (run_actions E t acts s) (run_actions E t acts s')"
proof (induction acts arbitrary: s s')
  case Nil
  then show ?case by simp
next
  case (Cons a acts)
  show ?case
  proof (cases a)
    case (Request r)
    from ServeHTTP_indep [OF Cons.prems, of E r] obtain n1 where
      1: "trace (wld (snd (ServeHTTP E r s))) = trace (wld s) @ n1"
         "trace (wld (snd (ServeHTTP E r s'))) = trace (wld s') @ n1"
         "same_control (snd (ServeHTTP E r s)) (snd (ServeHTTP E r s'))"
      by blast
    from Cons.IH [OF 1(3)] obtain n2 where
      2: "trace (wld (run_actions E t acts (snd (ServeHTTP E r s)))) =
            trace (wld (snd (ServeHTTP E r s))) @ n2"
         "trace (wld (run_actions E t acts (snd (ServeHTTP E r s')))) =
            trace (wld (snd (ServeHTTP E r s'))) @ n2"
         "same_control (run_actions E t acts (snd (ServeHTTP E r s)))
            (run_actions E t acts (snd (ServeHTTP E r s')))"
      by blast
    show ?thesis
      using 1 2 Request by (intro exI [of _ "n1 @ n2"]) simp
  next
    case WorkerTurn
    from worker_indep [OF Cons.prems, of E t] obtain n1 where
      1: "trace (wld (worker E t s)) = trace (wld s) @ n1"
         "trace (wld (worker E t s')) = trace (wld s') @ n1"
         "same_control (worker E t s) (worker E t s')"
      by blast
    from Cons.IH [OF 1(3)] obtain n2 where
      2: "trace (wld (run_actions E t acts (worker E t s))) = trace (wld (worker E t s)) @ n2"
         "trace (wld (run_actions E t acts (worker E t s'))) = trace (wld (worker E t s')) @ n2"
         "same_control (run_actions E t acts (worker E t s)) (run_actions E t acts (worker E t s'))"
      by blast
    show ?thesis
      using 1 2 WorkerTurn by (intro exI [of _ "n1 @ n2"]) simp
  qed
qed

section \<open>Receiver\<close>

lemma readValue_error_is_decode_error: "readValue body = Inl e \<Longrightarrow> Decode unmarshal body = Inl e"
  by (simp add: Decode_def)

text \<open>
  C5, as amended. When the body of a request does not decode, the handler writes
  "Invalid webhook: ..." to standard error and returns: it sends nothing on the
  channel, leaves the worker where it is, adds no capture, and writes neither a status
  nor a body to the response. Whatever requests and worker turns follow, they run as
  they would have run without that request: the same events are added to the trace,
  and the channel, the worker and the number of dispatches are the same. The decoder
  reads the first JSON value of the body and nothing after it, so a body does not
  decode when that value has a syntax error, when the body ends inside it or holds
  none, or when the value does not unmarshal into a message.
\<close>

theorem malformed_body_is_dropped:
  assumes "Decode (json_Unmarshal E) (req_body r) = Inl err"
  shows "handler E r s =
           ((Returned, no_response), s\<lparr>wld := emit (Stderr ''Invalid webhook: '' err) (wld s)\<rparr>)
     \<and> hookChan (snd (handler E r s)) = hookChan s
     \<and> worker_at (snd (handler E r s)) = worker_at s
     \<and> captures (trace (wld (snd (handler E r s)))) = captures (trace (wld s))
     \<and> (\<exists>new. trace (wld (run_actions E t acts (snd (handler E r s)))) =
                 trace (wld s) @ [Stderr ''Invalid webhook: '' err] @ new
             \<and> trace (wld (run_actions E t acts s)) = trace (wld s) @ new
             \<and> same_control (run_actions E t acts (snd (handler E r s))) (run_actions E t acts s))
     \<and> (readValue (req_body r) = Inl err
          \<or> (\<exists>v. readValue (req_body r) = Inr v \<and> json_Unmarshal E v = Inl err))"
proof -
  let ?s' = "s\<lparr>wld := emit (Stderr ''Invalid webhook: '' err) (wld s)\<rparr>"
  have why: "readValue (req_body r) = Inl err
          \<or> (\<exists>v. readValue (req_body r) = Inr v \<and> json_Unmarshal E v = Inl err)"
    using assms by (auto simp: Decode_def split: sum.splits)
  have h: "handler E r s = ((Returned, no_response), ?s')"
    using assms by (simp add: handler_def)
  have sc: "same_control ?s' s"
    by (simp add: same_control_def emit_def)
  from run_actions_indep [OF sc, of E t acts] obtain new where
    n: "trace (wld (run_actions E t acts ?s')) = trace (wld ?s') @ new"
       "trace (wld (run_actions E t acts s)) = trace (wld s) @ new"
       "same_control (run_actions E t acts ?s') (run_actions E t acts s)"
    by blast
  show ?thesis
    using n why by (simp add: h captures_append emit_def)
qed

lemma cleanPath_rooted: "take 1 (cleanPath p) = ''/''"
  by (simp add: cleanPath_def path_Clean_def Let_def)

lemma canonical_matches_root:
  assumes "cleanPath p = p"
  shows "p \<noteq> ''*''" and "pathMatch ''/'' p"
proof -
  from cleanPath_rooted [of p] assms have t: "take 1 p = ''/''" by simp
  then show "p \<noteq> ''*''" by auto
  from t show "pathMatch ''/'' p" by (cases p) (simp_all add: pathMatch_def)
qed

text \<open>
  C8, as amended. The one handler is registered under the root pattern, which matches
  every path, and the handler looks at neither the method nor the path: a request
  with any method, to any path in canonical form, is decoded and enqueued exactly as
  a POST to "/" with the same body is. A request to a path that is not in canonical
  form is answered by the mux with a redirect to the canonical path, without a call
  of the handler (the request target \<^verbatim>\<open>*\<close> and the method CONNECT apart).
\<close>

theorem any_method_canonical_path_reaches_handler:
  "(cleanPath (req_path r) = req_path r \<longrightarrow>
      ServeHTTP E r s =
        (case handler E \<lparr>req_method = ''POST'', req_path = ''/'', req_body = req_body r\<rparr> s of
           ((out, resp), s1) \<Rightarrow> (Handled out resp, s1)))
   \<and> (cleanPath (req_path r) \<noteq> req_path r \<and> req_path r \<noteq> ''*'' \<and> req_method r \<noteq> ''CONNECT'' \<longrightarrow>
        ServeHTTP E r s = (MovedPermanently (cleanPath (req_path r)), s))"
proof (intro conjI impI)
  assume c: "cleanPath (req_path r) = req_path r"
  from canonical_matches_root [OF c] show "ServeHTTP E r s =
        (case handler E \<lparr>req_method = ''POST'', req_path = ''/'', req_body = req_body r\<rparr> s of
           ((out, resp), s1) \<Rightarrow> (Handled out resp, s1))"
    by (simp add: ServeHTTP_def c mux_patterns_def handler_def)
next
  assume "cleanPath (req_path r) \<noteq> req_path r \<and> req_path r \<noteq> ''*'' \<and> req_method r \<noteq> ''CONNECT''"
  then show "ServeHTTP E r s = (MovedPermanently (cleanPath (req_path r)), s)"
    by (simp add: ServeHTTP_def)
qed

section \<open>Blocked sends\<close>

lemma request_behind:
  assumes "sys_inv s" "ch_sendq (hookChan s) = q @ wh # behind"
  shows "\<exists>behind'. ch_sendq (hookChan (snd (ServeHTTP E r s))) = q @ wh # behind'
     \<and> worker_at (snd (ServeHTTP E r s)) = worker_at s"
proof -
  from assms have np: "worker_at s \<noteq> Parked"
    by (auto simp: sys_inv_def)
  have "\<exists>behind'. ch_sendq (hookChan (snd (handler E r s))) = q @ wh # behind'
     \<and> worker_at (snd (handler E r s)) = worker_at s"
    using assms np by (auto simp: sys_inv_def handler_def chan_send_def split: sum.splits)
  then show ?thesis
    using assms ServeHTTP_state [of E r s] by auto
qed

lemma worker_takes_front:
  assumes "sys_inv s" "ch_sendq (hookChan s) = v # rest"
  shows "worker_at s = AtRange \<longrightarrow>
           worker_at (worker E t s) = Got v \<and> ch_sendq (hookChan (worker E t s)) = rest"
    and "worker_at s \<noteq> AtRange \<longrightarrow>
           worker_at (worker E t s) = AtRange \<and> ch_sendq (hookChan (worker E t s)) = v # rest"
  using assms by (auto simp: sys_inv_def worker_def chan_recv_def split: wstatus.splits)

lemma blocked_until_turn:
  assumes "sys_inv s" "ch_sendq (hookChan s) = q @ wh # behind"
    and "worker_turns acts < turns_until (worker_at s) (length q)"
  shows "\<exists>q' behind'. ch_sendq (hookChan (run_actions E t acts s)) = q' @ wh # behind'
     \<and> turns_until (worker_at (run_actions E t acts s)) (length q') + worker_turns acts =
         turns_until (worker_at s) (length q)"
  using assms
proof (induction acts arbitrary: s q behind)
  case Nil
  then show ?case by auto
next
  case (Cons a acts)
  show ?case
  proof (cases a)
    case (Request r)
    from request_behind [OF Cons.prems(1,2), of E r] obtain behind' where
      b: "ch_sendq (hookChan (snd (ServeHTTP E r s))) = q @ wh # behind'"
         "worker_at (snd (ServeHTTP E r s)) = worker_at s"
      by blast
    have inv: "sys_inv (snd (ServeHTTP E r s))"
      by (rule sys_inv_ServeHTTP [OF Cons.prems(1)])
    from Cons.IH [OF inv b(1)] Cons.prems(3) Request b(2) show ?thesis
      by simp
  next
    case WorkerTurn
    have inv: "sys_inv (worker E t s)"
      by (rule sys_inv_worker [OF Cons.prems(1)])
    show ?thesis
    proof (cases "worker_at s = AtRange")
      case True
      with Cons.prems(3) WorkerTurn obtain v vs where q: "q = v # vs"
        by (cases q) (auto simp: turns_until_def)
      from Cons.prems(2) q have sq: "ch_sendq (hookChan s) = v # (vs @ wh # behind)" by simp
      from worker_takes_front(1) [OF Cons.prems(1) sq, of E t] True
      have w: "worker_at (worker E t s) = Got v" "ch_sendq (hookChan (worker E t s)) = vs @ wh # behind"
        by auto
      have "worker_turns acts < turns_until (worker_at (worker E t s)) (length vs)"
        using Cons.prems(3) WorkerTurn True q w by (simp add: turns_until_def)
      from Cons.IH [OF inv w(2) this] show ?thesis
        using WorkerTurn True q w by (simp add: turns_until_def)
    next
      case False
      from Cons.prems(2) obtain v rest where sq: "ch_sendq (hookChan s) = v # rest"
        by (cases q) auto
      from worker_takes_front(2) [OF Cons.prems(1) sq, of E t] False sq Cons.prems(2)
      have w: "worker_at (worker E t s) = AtRange" "ch_sendq (hookChan (worker E t s)) = q @ wh # behind"
        by auto
      have "worker_turns acts < turns_until (worker_at (worker E t s)) (length q)"
        using Cons.prems(3) WorkerTurn False w by (simp add: turns_until_def)
      from Cons.IH [OF inv w(2) this] show ?thesis
        using WorkerTurn False w by (simp add: turns_until_def)
    qed
  qed
qed

lemma received_at_turn:
  assumes "sys_inv s" "ch_sendq (hookChan s) = q @ wh # behind"
    and "worker_turns acts + 1 = turns_until (worker_at s) (length q)"
  shows "worker_at (run_actions E t (acts @ [WorkerTurn]) s) = Got wh"
proof -
  from assms(3) have lt: "worker_turns acts < turns_until (worker_at s) (length q)" by simp
  from blocked_until_turn [OF assms(1,2) lt, of E t] obtain q' behind' where
    b: "ch_sendq (hookChan (run_actions E t acts s)) = q' @ wh # behind'"
       "turns_until (worker_at (run_actions E t acts s)) (length q') + worker_turns acts =
         turns_until (worker_at s) (length q)"
    by blast
  from b(2) assms(3) have "turns_until (worker_at (run_actions E t acts s)) (length q') = 1"
    by simp
  then have e: "q' = []" "worker_at (run_actions E t acts s) = AtRange"
    by (auto simp: turns_until_def split: if_splits)
  have inv: "sys_inv (run_actions E t acts s)"
    by (rule sys_inv_run [OF assms(1)])
  from b(1) e have sq: "ch_sendq (hookChan (run_actions E t acts s)) = wh # behind'" by simp
  from worker_takes_front(1) [OF inv sq, of E t] e(2) show ?thesis
    by (simp add: run_actions_append)
qed

text \<open>
  C7, as amended. The intake channel has no buffer. In every state of a run, the send
  of a decoded message completes at once if and only if the worker is parked in its
  receive, and then hands the message to the worker; otherwise, whatever the worker
  is doing, the handler blocks in the send, holding the message behind those of the
  handlers blocked before it. From then on, whatever requests arrive, the message
  stays in the queue of blocked senders while the worker receives and processes the
  messages before it, one per pass of its loop, and the worker's next receive takes
  it: the send completes at the worker turn that \<open>turns_until\<close> counts.
\<close>

theorem send_completes_only_by_handoff:
  assumes "Decode (json_Unmarshal E) (req_body r) = Inr wh"
  shows "ch_cap (hookChan (run_actions E t acts sys_init)) = 0
     \<and> fst (fst (handler E r (run_actions E t acts sys_init))) =
         (if worker_at (run_actions E t acts sys_init) = Parked then Returned else BlockedOnSend)
     \<and> worker_at (snd (handler E r (run_actions E t acts sys_init))) =
         (if worker_at (run_actions E t acts sys_init) = Parked then Got wh
          else worker_at (run_actions E t acts sys_init))
     \<and> ch_sendq (hookChan (snd (handler E r (run_actions E t acts sys_init)))) =
         (if worker_at (run_actions E t acts sys_init) = Parked then []
          else ch_sendq (hookChan (run_actions E t acts sys_init)) @ [wh])
     \<and> (worker_at (run_actions E t acts sys_init) \<noteq> Parked \<longrightarrow>
          (\<forall>later.
             (worker_turns later <
                turns_until (worker_at (run_actions E t acts sys_init))
                  (length (ch_sendq (hookChan (run_actions E t acts sys_init)))) \<longrightarrow>
              (\<exists>q behind.
                 ch_sendq (hookChan (run_actions E t later
                   (snd (handler E r (run_actions E t acts sys_init))))) = q @ wh # behind
               \<and> turns_until (worker_at (run_actions E t later
                   (snd (handler E r (run_actions E t acts sys_init))))) (length q)
                   + worker_turns later =
                 turns_until (worker_at (run_actions E t acts sys_init))
                   (length (ch_sendq (hookChan (run_actions E t acts sys_init))))))
           \<and> (worker_turns later + 1 =
                turns_until (worker_at (run_actions E t acts sys_init))
                  (length (ch_sendq (hookChan (run_actions E t acts sys_init)))) \<longrightarrow>
              worker_at (run_actions E t (later @ [WorkerTurn])
                (snd (handler E r (run_actions E t acts sys_init)))) = Got wh)))"
proof -
  let ?s = "run_actions E t acts sys_init"
  let ?s1 = "snd (handler E r ?s)"
  have inv: "sys_inv ?s" by (rule sys_inv_reach)
  have first: "ch_cap (hookChan ?s) = 0
     \<and> fst (fst (handler E r ?s)) = (if worker_at ?s = Parked then Returned else BlockedOnSend)
     \<and> worker_at ?s1 = (if worker_at ?s = Parked then Got wh else worker_at ?s)
     \<and> ch_sendq (hookChan ?s1) = (if worker_at ?s = Parked then [] else ch_sendq (hookChan ?s) @ [wh])"
    using assms inv by (simp add: sys_inv_def handler_def chan_send_def)
  have later: "worker_at ?s \<noteq> Parked \<longrightarrow>
          (\<forall>later.
             (worker_turns later < turns_until (worker_at ?s) (length (ch_sendq (hookChan ?s))) \<longrightarrow>
              (\<exists>q behind. ch_sendq (hookChan (run_actions E t later ?s1)) = q @ wh # behind
               \<and> turns_until (worker_at (run_actions E t later ?s1)) (length q) + worker_turns later =
                 turns_until (worker_at ?s) (length (ch_sendq (hookChan ?s)))))
           \<and> (worker_turns later + 1 = turns_until (worker_at ?s) (length (ch_sendq (hookChan ?s))) \<longrightarrow>
              worker_at (run_actions E t (later @ [WorkerTurn]) ?s1) = Got wh))"
  proof (intro impI allI conjI)
    fix later
    assume np: "worker_at ?s \<noteq> Parked"
    have inv1: "sys_inv ?s1" by (rule sys_inv_handler [OF inv])
    from first np have sq: "ch_sendq (hookChan ?s1) = ch_sendq (hookChan ?s) @ wh # []"
      and w1: "worker_at ?s1 = worker_at ?s"
      by simp_all
    {
      assume lt: "worker_turns later < turns_until (worker_at ?s) (length (ch_sendq (hookChan ?s)))"
      then have "worker_turns later < turns_until (worker_at ?s1) (length (ch_sendq (hookChan ?s)))"
        by (simp add: w1)
      from blocked_until_turn [OF inv1 sq this, of E t]
      show "\<exists>q behind. ch_sendq (hookChan (run_actions E t later ?s1)) = q @ wh # behind
               \<and> turns_until (worker_at (run_actions E t later ?s1)) (length q) + worker_turns later =
                 turns_until (worker_at ?s) (length (ch_sendq (hookChan ?s)))"
        by (simp add: w1)
    }
    {
      assume eq: "worker_turns later + 1 = turns_until (worker_at ?s) (length (ch_sendq (hookChan ?s)))"
      then have "worker_turns later + 1 = turns_until (worker_at ?s1) (length (ch_sendq (hookChan ?s)))"
        by (simp add: w1)
      from received_at_turn [OF inv1 sq this, of E t]
      show "worker_at (run_actions E t (later @ [WorkerTurn]) ?s1) = Got wh" .
    }
  qed
  from first later show ?thesis by blast
qed

section \<open>Shutdown\<close>
















section \<open>Concrete runs\<close>

lemmas scan_defs =
  readValue_def scanner_reset_def scan_step_def stateBeginValue_def stateBeginValueOrEmpty_def
  stateBeginString_def stateBeginStringOrEmpty_def stateEndValue_def stateEndTop_def
  stateInString_def stateInStringEsc_def stateInStringEscU_def stateNeg_def state0_def state1_def
  stateDot_def stateDot0_def stateE_def stateESign_def stateE0_def stateLetter_def
  popParseState_def scan_error_def goto_def isSpace_def isDigit_def isHex_def scanner_error_def

lemmas run_defs =
  worker_def handler_def chan_recv_def chan_send_def sys_init_def make_chan_def

lemma read_two_alerts: "readValue two_alerts_json = Inr two_alerts_json"
  by (simp add: two_alerts_json_def scan_defs)

lemma read_one_alert: "readValue one_alert_json = Inr one_alert_json"
  by (simp add: one_alert_json_def scan_defs)

lemma read_trailing: "readValue (one_alert_json @ ''}}} not json'') = Inr one_alert_json"
  by (simp add: one_alert_json_def scan_defs)

lemma invalid_trailing: "\<not> json_Valid (one_alert_json @ ''}}} not json'')"
  by (simp add: one_alert_json_def json_Valid_def scan_defs)

lemma valid_one_alert: "json_Valid one_alert_json"
  by (simp add: one_alert_json_def json_Valid_def scan_defs)

lemma json_texts_differ: "one_alert_json \<noteq> two_alerts_json"
  by (simp add: one_alert_json_def two_alerts_json_def)

lemma decode_good: "Decode (json_Unmarshal example_env) (req_body good_request) = Inr two_alerts"
  by (simp add: Decode_def good_request_def read_two_alerts example_env_def)

lemma decode_get: "Decode (json_Unmarshal example_env) (req_body get_request) = Inr two_alerts"
  by (simp add: Decode_def get_request_def read_two_alerts example_env_def)

lemma decode_other: "Decode (json_Unmarshal example_env) (req_body other_request) = Inr one_alert"
  by (simp add: Decode_def other_request_def read_one_alert example_env_def json_texts_differ)

lemma decode_trailing: "Decode (json_Unmarshal example_env) (req_body trailing_request) = Inr one_alert"
  by (simp add: Decode_def trailing_request_def read_trailing example_env_def json_texts_differ)

lemma decode_bad: "Decode (json_Unmarshal example_env) (req_body bad_request) = Inl UnexpectedEOF"
  by (simp add: Decode_def bad_request_def scan_defs)

lemma clean_root: "cleanPath ''/'' = ''/''" and clean_metrics: "cleanPath ''/metrics'' = ''/metrics''"
  and clean_unclean: "cleanPath ''//metrics'' = ''/metrics''"
  and clean_dotdot: "cleanPath ''/a/../hook'' = ''/hook''"
  by (simp_all add: cleanPath_def path_Clean_def)

lemma serve_root:
  "req_path r = ''/'' \<Longrightarrow>
     ServeHTTP E r s = (Handled (fst (fst (handler E r s))) (snd (fst (handler E r s))), snd (handler E r s))"
  by (simp add: ServeHTTP_def clean_root mux_patterns_def pathMatch_def split: prod.splits)

lemma serve_metrics:
  "req_path r = ''/metrics'' \<Longrightarrow>
     ServeHTTP E r s = (Handled (fst (fst (handler E r s))) (snd (fst (handler E r s))), snd (handler E r s))"
  by (simp add: ServeHTTP_def clean_metrics mux_patterns_def pathMatch_def split: prod.splits)

lemma path_good: "req_path good_request = ''/''" and path_get: "req_path get_request = ''/metrics''"
  and path_bad: "req_path bad_request = ''/''" and path_other: "req_path other_request = ''/''"
  and path_trailing: "req_path trailing_request = ''/''"
  by (simp_all add: good_request_def get_request_def bad_request_def other_request_def
      trailing_request_def)

lemmas serve_defs =
  serve_root [OF path_good] serve_root [OF path_bad] serve_root [OF path_other]
  serve_root [OF path_trailing] serve_metrics [OF path_get]
  decode_good decode_get decode_other decode_trailing decode_bad

lemma parked_run:
  "run_actions E t [WorkerTurn] sys_init =
     sys_init\<lparr>hookChan := (make_chan 0)\<lparr>ch_recvq := 1\<rparr>, worker_at := Parked\<rparr>"
  by (simp add: run_defs)

lemma two_alerts_length: "length (Alerts two_alerts) = 2"
  by (simp add: two_alerts_def)

lemma one_alert_length: "length (Alerts one_alert) = 1"
  by (simp add: one_alert_def)

lemma messages_differ: "one_alert \<noteq> two_alerts"
  using two_alerts_length one_alert_length by auto

lemma captures_of_held:
  "length (captures (trace (wld (worker E t (s\<lparr>worker_at := Got wh\<rparr>))))) =
     length (captures (trace (wld s))) + length (Alerts wh)"
  by (simp add: worker_def worker_message_def worker_alerts_eq captures_append captures_alerts_events)

text \<open>
  C8 as stated fails: a GET request to /metrics whose body decodes is handed to the
  parked worker, which dispatches its two alerts.
\<close>

theorem get_request_to_other_path_is_enqueued:
  "req_method get_request = ''GET'' \<and> req_path get_request = ''/metrics''
   \<and> worker_at (snd (ServeHTTP example_env get_request
        (run_actions example_env (new_template defaultTemplate) [WorkerTurn] sys_init))) = Got two_alerts
   \<and> length (captures (trace (wld (run_actions example_env (new_template defaultTemplate)
        [WorkerTurn, Request get_request, WorkerTurn] sys_init)))) = 2"
proof -
  have a: "snd (ServeHTTP example_env get_request
        (run_actions example_env (new_template defaultTemplate) [WorkerTurn] sys_init)) =
      sys_init\<lparr>hookChan := make_chan 0, worker_at := Got two_alerts\<rparr>"
    by (simp add: parked_run serve_defs) (simp add: run_defs serve_defs)
  have b: "run_actions example_env (new_template defaultTemplate)
        [WorkerTurn, Request get_request, WorkerTurn] sys_init =
      worker example_env (new_template defaultTemplate)
        (snd (ServeHTTP example_env get_request
          (run_actions example_env (new_template defaultTemplate) [WorkerTurn] sys_init)))"
    by simp
  have c: "sys_init\<lparr>hookChan := make_chan 0, worker_at := Got two_alerts\<rparr> =
      sys_init\<lparr>worker_at := Got two_alerts\<rparr>"
    by (simp add: sys_init_def)
  show ?thesis
    unfolding b a c captures_of_held
    by (simp add: get_request_def two_alerts_length) (simp add: sys_init_def)
qed

theorem any_method_canonical_path_reaches_handler_witness:
  "cleanPath (req_path get_request) = req_path get_request
   \<and> req_method get_request = ''GET''
   \<and> ServeHTTP example_env get_request sys_init =
       (Handled BlockedOnSend no_response,
        sys_init\<lparr>hookChan := (make_chan 0)\<lparr>ch_sendq := [two_alerts]\<rparr>\<rparr>)
   \<and> cleanPath (req_path unclean_request) \<noteq> req_path unclean_request
   \<and> req_path unclean_request \<noteq> ''*'' \<and> req_method unclean_request \<noteq> ''CONNECT''
   \<and> ServeHTTP example_env unclean_request sys_init = (MovedPermanently ''/metrics'', sys_init)
   \<and> cleanPath (req_path dotdot_request) \<noteq> req_path dotdot_request
   \<and> req_path dotdot_request \<noteq> ''*'' \<and> req_method dotdot_request \<noteq> ''CONNECT''
   \<and> ServeHTTP example_env dotdot_request sys_init = (MovedPermanently ''/hook'', sys_init)"
proof -
  have g: "cleanPath (req_path get_request) = req_path get_request"
    by (simp add: get_request_def clean_metrics)
  have u: "cleanPath (req_path unclean_request) \<noteq> req_path unclean_request
      \<and> req_path unclean_request \<noteq> ''*'' \<and> req_method unclean_request \<noteq> ''CONNECT''"
    "cleanPath (req_path unclean_request) = ''/metrics''"
    by (simp_all add: unclean_request_def clean_unclean)
  have d: "cleanPath (req_path dotdot_request) \<noteq> req_path dotdot_request
      \<and> req_path dotdot_request \<noteq> ''*'' \<and> req_method dotdot_request \<noteq> ''CONNECT''"
    "cleanPath (req_path dotdot_request) = ''/hook''"
    by (simp_all add: dotdot_request_def clean_dotdot)
  have h: "handler example_env \<lparr>req_method = ''POST'', req_path = ''/'', req_body = req_body get_request\<rparr>
      sys_init = ((BlockedOnSend, no_response), sys_init\<lparr>hookChan := (make_chan 0)\<lparr>ch_sendq := [two_alerts]\<rparr>\<rparr>)"
    using decode_get by (simp add: run_defs)
  from any_method_canonical_path_reaches_handler [of get_request example_env sys_init]
       any_method_canonical_path_reaches_handler [of unclean_request example_env sys_init]
       any_method_canonical_path_reaches_handler [of dotdot_request example_env sys_init]
  show ?thesis
    using g u d h by (simp add: get_request_def)
qed

text \<open>
  C7 as stated fails: while the worker is busy with a message it has received, with
  no message pending in the channel, the send of the next decoded message blocks.
\<close>

theorem enqueue_blocks_while_worker_is_busy:
  "ch_cap (hookChan sys_init) = 0
   \<and> Decode (json_Unmarshal example_env) (req_body good_request) = Inr two_alerts
   \<and> worker_at (run_actions example_env (new_template defaultTemplate)
        [WorkerTurn, Request good_request] sys_init) = Got two_alerts
   \<and> chan_len (hookChan (run_actions example_env (new_template defaultTemplate)
        [WorkerTurn, Request good_request] sys_init)) = 0
   \<and> fst (ServeHTTP example_env good_request
        (run_actions example_env (new_template defaultTemplate)
          [WorkerTurn, Request good_request] sys_init)) = Handled BlockedOnSend no_response"
proof -
  have a: "run_actions example_env (new_template defaultTemplate)
        [WorkerTurn, Request good_request] sys_init =
      sys_init\<lparr>hookChan := make_chan 0, worker_at := Got two_alerts\<rparr>"
    by (simp add: serve_defs) (simp add: run_defs serve_defs)
  show ?thesis
    unfolding a by (simp add: serve_defs) (simp add: run_defs serve_defs chan_len_def)
qed

theorem send_completes_only_by_handoff_witness:
  "Decode (json_Unmarshal example_env) (req_body good_request) = Inr two_alerts
   \<and> Decode (json_Unmarshal example_env) (req_body other_request) = Inr one_alert
   \<and> worker_at (run_actions example_env (new_template defaultTemplate) [WorkerTurn] sys_init) = Parked
   \<and> fst (fst (handler example_env good_request
        (run_actions example_env (new_template defaultTemplate) [WorkerTurn] sys_init))) = Returned
   \<and> worker_at (snd (handler example_env good_request
        (run_actions example_env (new_template defaultTemplate) [WorkerTurn] sys_init))) = Got two_alerts
   \<and> worker_at (run_actions example_env (new_template defaultTemplate) [Request good_request] sys_init)
        = AtRange
   \<and> ch_sendq (hookChan (run_actions example_env (new_template defaultTemplate)
        [Request good_request] sys_init)) = [two_alerts]
   \<and> fst (fst (handler example_env other_request
        (run_actions example_env (new_template defaultTemplate) [Request good_request] sys_init)))
        = BlockedOnSend
   \<and> ch_sendq (hookChan (snd (handler example_env other_request
        (run_actions example_env (new_template defaultTemplate) [Request good_request] sys_init))))
        = [two_alerts, one_alert]
   \<and> worker_turns [WorkerTurn, Request get_request, WorkerTurn] = 2
   \<and> turns_until AtRange (length [two_alerts]) = 3
   \<and> (\<exists>q behind.
         ch_sendq (hookChan (run_actions example_env (new_template defaultTemplate)
           [WorkerTurn, Request get_request, WorkerTurn]
           (snd (handler example_env other_request
             (run_actions example_env (new_template defaultTemplate) [Request good_request] sys_init)))))
         = q @ one_alert # behind
       \<and> turns_until (worker_at (run_actions example_env (new_template defaultTemplate)
           [WorkerTurn, Request get_request, WorkerTurn]
           (snd (handler example_env other_request
             (run_actions example_env (new_template defaultTemplate) [Request good_request] sys_init)))))
           (length q) = 1)
   \<and> worker_at (run_actions example_env (new_template defaultTemplate)
        ([WorkerTurn, Request get_request, WorkerTurn] @ [WorkerTurn])
        (snd (handler example_env other_request
          (run_actions example_env (new_template defaultTemplate) [Request good_request] sys_init))))
        = Got one_alert"
proof -
  let ?t = "new_template defaultTemplate"
  let ?later = "[WorkerTurn, Request get_request, WorkerTurn]"
  have p: "worker_at (run_actions example_env ?t [WorkerTurn] sys_init) = Parked"
    by (simp add: run_defs)
  have s: "run_actions example_env ?t [Request good_request] sys_init =
      sys_init\<lparr>hookChan := (make_chan 0)\<lparr>ch_sendq := [two_alerts]\<rparr>\<rparr>"
    by (simp add: serve_defs) (simp add: run_defs serve_defs)
  have a: "worker_at (run_actions example_env ?t [Request good_request] sys_init) = AtRange"
    "ch_sendq (hookChan (run_actions example_env ?t [Request good_request] sys_init)) = [two_alerts]"
    unfolding s by (simp_all add: sys_init_def make_chan_def)
  have np: "worker_at (run_actions example_env ?t [Request good_request] sys_init) \<noteq> Parked"
    by (simp add: a del: run_actions.simps)
  have n: "worker_turns ?later = 2" "turns_until AtRange (length [two_alerts]) = 3"
    by (simp_all add: turns_until_def)
  note th1 = send_completes_only_by_handoff [OF decode_good, of ?t "[WorkerTurn]"]
  note th2 = send_completes_only_by_handoff [OF decode_other, of ?t "[Request good_request]"]
  note later = th2 [THEN conjunct2, THEN conjunct2, THEN conjunct2, THEN conjunct2, rule_format, OF np,
      of ?later]
  have lt: "worker_turns ?later <
      turns_until (worker_at (run_actions example_env ?t [Request good_request] sys_init))
        (length (ch_sendq (hookChan (run_actions example_env ?t [Request good_request] sys_init))))"
    by (simp add: a turns_until_def del: run_actions.simps)
  have eq: "worker_turns ?later + 1 =
      turns_until (worker_at (run_actions example_env ?t [Request good_request] sys_init))
        (length (ch_sendq (hookChan (run_actions example_env ?t [Request good_request] sys_init))))"
    by (simp add: a turns_until_def del: run_actions.simps)
  from later [THEN conjunct1, rule_format, OF lt]
  have still: "\<exists>q behind.
       ch_sendq (hookChan (run_actions example_env ?t ?later
         (snd (handler example_env other_request
           (run_actions example_env ?t [Request good_request] sys_init))))) = q @ one_alert # behind
     \<and> turns_until (worker_at (run_actions example_env ?t ?later
         (snd (handler example_env other_request
           (run_actions example_env ?t [Request good_request] sys_init))))) (length q) = 1"
    unfolding a n by (simp del: run_actions.simps)
  from later [THEN conjunct2, rule_format, OF eq]
  have got: "worker_at (run_actions example_env ?t (?later @ [WorkerTurn])
        (snd (handler example_env other_request
          (run_actions example_env ?t [Request good_request] sys_init)))) = Got one_alert" .
  from th1 p have parked: "fst (fst (handler example_env good_request
        (run_actions example_env ?t [WorkerTurn] sys_init))) = Returned"
     "worker_at (snd (handler example_env good_request
        (run_actions example_env ?t [WorkerTurn] sys_init))) = Got two_alerts"
    by (simp_all del: run_actions.simps)
  from th2 np a have blocked: "fst (fst (handler example_env other_request
        (run_actions example_env ?t [Request good_request] sys_init))) = BlockedOnSend"
     "ch_sendq (hookChan (snd (handler example_env other_request
        (run_actions example_env ?t [Request good_request] sys_init)))) = [two_alerts, one_alert]"
    by (simp_all del: run_actions.simps)
  show ?thesis
    using decode_good decode_other p a n still got parked blocked
    by (intro conjI) assumption+
qed

text \<open>
  C5 as stated fails: a body that is not well-formed JSON, a JSON object followed by
  closing braces and words, is decoded from its first value; the message is handed to
  the parked worker, which dispatches its alert.
\<close>

theorem malformed_body_with_valid_first_value_is_enqueued:
  "\<not> json_Valid (req_body trailing_request)
   \<and> Decode (json_Unmarshal example_env) (req_body trailing_request) = Inr one_alert
   \<and> ch_sendq (hookChan (snd (handler example_env trailing_request sys_init))) = [one_alert]
   \<and> worker_at (snd (handler example_env trailing_request
        (run_actions example_env (new_template defaultTemplate) [WorkerTurn] sys_init))) = Got one_alert
   \<and> length (captures (trace (wld (run_actions example_env (new_template defaultTemplate)
        [WorkerTurn, Request trailing_request, WorkerTurn] sys_init)))) = 1"
proof -
  let ?t = "new_template defaultTemplate"
  have v: "\<not> json_Valid (req_body trailing_request)"
    by (simp add: trailing_request_def invalid_trailing)
  have a: "snd (handler example_env trailing_request (run_actions example_env ?t [WorkerTurn] sys_init)) =
      sys_init\<lparr>hookChan := make_chan 0, worker_at := Got one_alert\<rparr>"
    by (simp add: parked_run) (simp add: run_defs serve_defs)
  have b: "run_actions example_env ?t [WorkerTurn, Request trailing_request, WorkerTurn] sys_init =
      worker example_env ?t
        (snd (handler example_env trailing_request (run_actions example_env ?t [WorkerTurn] sys_init)))"
    by (simp add: serve_defs)
  have c: "sys_init\<lparr>hookChan := make_chan 0, worker_at := Got one_alert\<rparr> =
      sys_init\<lparr>worker_at := Got one_alert\<rparr>"
    by (simp add: sys_init_def)
  have d: "ch_sendq (hookChan (snd (handler example_env trailing_request sys_init))) = [one_alert]"
    by (simp add: run_defs serve_defs)
  show ?thesis
    unfolding b a c captures_of_held
    by (simp add: v decode_trailing d one_alert_length) (simp add: sys_init_def)
qed

theorem malformed_body_is_dropped_witness:
  "Decode (json_Unmarshal example_env) (req_body bad_request) = Inl UnexpectedEOF
   \<and> handler example_env bad_request sys_init =
       ((Returned, no_response),
        sys_init\<lparr>wld := \<lparr>trace = [Stderr ''Invalid webhook: '' UnexpectedEOF], dispatched = 0\<rparr>\<rparr>)
   \<and> hookChan (snd (handler example_env bad_request sys_init)) = make_chan 0
   \<and> length (captures (trace (wld (run_actions example_env (new_template defaultTemplate)
        [WorkerTurn, Request good_request, WorkerTurn]
        (snd (handler example_env bad_request sys_init)))))) = 2"
proof -
  let ?t = "new_template defaultTemplate"
  let ?acts = "[WorkerTurn, Request good_request, WorkerTurn]"
  have a: "run_actions example_env ?t ?acts sys_init =
      worker example_env ?t (sys_init\<lparr>worker_at := Got two_alerts\<rparr>)"
    by (simp add: serve_defs) (simp add: run_defs serve_defs)
  have c: "length (captures (trace (wld (run_actions example_env ?t ?acts sys_init)))) = 2"
    unfolding a captures_of_held by (simp add: two_alerts_length sys_init_def)
  have i: "trace (wld sys_init) = []" "hookChan sys_init = make_chan 0"
    by (simp_all add: sys_init_def)
  from malformed_body_is_dropped [OF decode_bad, of sys_init ?t ?acts]
  obtain new where
    h: "handler example_env bad_request sys_init =
         ((Returned, no_response),
          sys_init\<lparr>wld := emit (Stderr ''Invalid webhook: '' UnexpectedEOF) (wld sys_init)\<rparr>)"
    and k: "hookChan (snd (handler example_env bad_request sys_init)) = hookChan sys_init"
    and n1: "trace (wld (run_actions example_env ?t ?acts (snd (handler example_env bad_request sys_init)))) =
         trace (wld sys_init) @ [Stderr ''Invalid webhook: '' UnexpectedEOF] @ new"
    and n2: "trace (wld (run_actions example_env ?t ?acts sys_init)) = trace (wld sys_init) @ new"
    by blast
  have "captures new = captures (trace (wld (run_actions example_env ?t ?acts sys_init)))"
    by (simp add: n2 i del: run_actions.simps)
  then have "length (captures (trace (wld (run_actions example_env ?t ?acts
      (snd (handler example_env bad_request sys_init)))))) = 2"
    by (simp add: n1 i captures_append c del: run_actions.simps)
  moreover have "handler example_env bad_request sys_init =
       ((Returned, no_response),
        sys_init\<lparr>wld := \<lparr>trace = [Stderr ''Invalid webhook: '' UnexpectedEOF], dispatched = 0\<rparr>\<rparr>)"
    by (simp add: h) (simp add: emit_def sys_init_def)
  ultimately show ?thesis
    using k by (simp add: decode_bad i del: run_actions.simps)
qed










end
